theory Spec2Isabelle
  imports Complex_Main
begin

section \<open>Numbers\<close>

text \<open>
  Every number of \<^verbatim>\<open>src/src/App.js\<close> is a JavaScript number. The development reads
  them as real numbers: \<open>+\<close>, \<open>-\<close>, \<open>*\<close>, \<open>/\<close> and the functions of \<^verbatim>\<open>Math\<close> are the
  exact real operations, so rounding, overflow and underflow of IEEE doubles are not part
  of the model. The values \<^verbatim>\<open>NaN\<close> and \<^verbatim>\<open>-Infinity\<close> have no counterpart; each
  function of \<^verbatim>\<open>Math\<close> below says on which arguments JavaScript returns a finite number.
  A theorem about the value of a computation carries the hypotheses that keep every step
  on such arguments (\<open>0 < p\<close>, \<open>1 \<le> k\<close>, \<open>0 < target\<close>); a theorem without them
  (on the sampled error rates, on the absence of validation) does not depend on the
  values computed outside that range. \<^verbatim>\<open>Infinity\<close> occurs in the source as the initial
  value of \<^verbatim>\<open>minDiff\<close> only and is modelled there (type \<open>numinf\<close>).

  The registry and the two searches are given a second time, over a type of JavaScript
  numbers that has \<^verbatim>\<open>Infinity\<close>, \<^verbatim>\<open>-Infinity\<close> and \<^verbatim>\<open>NaN\<close> and with the rounding operations
  left as parameters: the theorems on the registry table and on the shape of the two
  searches are proved there, for every arithmetic.
\<close>

definition Math_floor :: "real \<Rightarrow> real" where
  "Math_floor x = of_int \<lfloor>x\<rfloor>"

definition Math_ceil :: "real \<Rightarrow> real" where
  "Math_ceil x = of_int \<lceil>x\<rceil>"

text \<open>\<^verbatim>\<open>Math.sqrt(x)\<close> is a number for \<open>0 \<le> x\<close> (and \<^verbatim>\<open>NaN\<close> below \<open>0\<close>).\<close>

definition Math_sqrt :: "real \<Rightarrow> real" where
  "Math_sqrt x = sqrt x"

text \<open>\<^verbatim>\<open>Math.log10(x)\<close> is a number for \<open>0 < x\<close> (\<^verbatim>\<open>-Infinity\<close> at \<open>0\<close>, \<^verbatim>\<open>NaN\<close> below).\<close>

definition Math_log10 :: "real \<Rightarrow> real" where
  "Math_log10 x = log 10 x"

definition Math_abs :: "real \<Rightarrow> real" where
  "Math_abs x = \<bar>x\<bar>"

definition Math_max :: "real \<Rightarrow> real \<Rightarrow> real" where
  "Math_max x y = max x y"

text \<open>
  \<^verbatim>\<open>Math.pow(x, y)\<close>: \<open>1\<close> for \<open>y = 0\<close> whatever \<open>x\<close> is; the real power for \<open>0 < x\<close>;
  \<open>0\<close> for \<open>x = 0\<close> and \<open>0 < y\<close>; for \<open>x < 0\<close> and an integer \<open>y\<close> the signed power.
  JavaScript returns \<^verbatim>\<open>Infinity\<close> for \<open>x = 0\<close>, \<open>y < 0\<close> and \<^verbatim>\<open>NaN\<close> for \<open>x < 0\<close> with a
  fractional \<open>y\<close>; these two cases are outside the model (the last branch and the value
  \<open>0 powr y = 0\<close> stand there).
\<close>

definition Math_pow :: "real \<Rightarrow> real \<Rightarrow> real" where
  "Math_pow x y =
     (if y = 0 then 1
      else if 0 \<le> x then x powr y
      else if y = of_int \<lfloor>y\<rfloor> then (if even \<lfloor>y\<rfloor> then \<bar>x\<bar> powr y else - (\<bar>x\<bar> powr y))
      else 0)"

section \<open>The code library\<close>

text \<open>
  The object \<^verbatim>\<open>params\<close> handed to \<^verbatim>\<open>calculateParams\<close> and the object \<^verbatim>\<open>result\<close> it
  builds. Of \<^verbatim>\<open>params\<close> the fields that the callers always set are kept (no
  \<^verbatim>\<open>calculateParams\<close> reads another one). A field of \<^verbatim>\<open>result\<close> that only some codes
  assign (\<^verbatim>\<open>d\<close>, \<^verbatim>\<open>n_ancilla\<close>, \<^verbatim>\<open>k\<close>) is optional; \<^verbatim>\<open>epsilon_L\<close> and \<^verbatim>\<open>n\<close> are
  assigned by every code.
\<close>

record params =
  params_p :: real
  params_n :: real
  params_k :: real
  params_epsilon_L :: real

record result =
  res_d :: "real option"
  res_n_ancilla :: "real option"
  res_epsilon_L :: real
  res_k :: "real option"
  res_n :: real

definition surface_calculateParams :: "params \<Rightarrow> result" where
  "surface_calculateParams ps =
     (let p_ratio = params_p ps / 0.011;
          d = Math_floor (Math_sqrt (params_n ps / params_k ps));
          n_ancilla = params_k ps * (Math_pow (d - 1) 2 + 2 * (d - 1));
          epsilon_L = 0.03 * params_k ps * Math_pow p_ratio (d / 2)
      in \<lparr>res_d = Some d, res_n_ancilla = Some n_ancilla, res_epsilon_L = epsilon_L,
          res_k = Some (params_k ps), res_n = params_n ps\<rparr>)"

definition yoked_1d_calculateParams :: "params \<Rightarrow> result" where
  "yoked_1d_calculateParams ps =
     (let p_ratio = params_p ps / 0.011;
          d_in = Math_floor (Math_sqrt (params_n ps / params_k ps));
          mu_1d = 1.8;
          d = Math_floor (mu_1d * d_in);
          n_ancilla = params_k ps * (Math_pow (d_in - 1) 2 + 2 * (d_in - 1)) * 1.2;
          epsilon_L = 0.03 * params_k ps * Math_pow p_ratio (Math_ceil (d / 2))
      in \<lparr>res_d = Some d, res_n_ancilla = Some n_ancilla, res_epsilon_L = epsilon_L,
          res_k = Some (params_k ps), res_n = params_n ps\<rparr>)"

definition yoked_2d_calculateParams :: "params \<Rightarrow> result" where
  "yoked_2d_calculateParams ps =
     (let p_ratio = params_p ps / 0.011;
          d_in = Math_floor (Math_sqrt (params_n ps / params_k ps));
          mu_2d = 3.2;
          d = Math_floor (mu_2d * d_in);
          n_ancilla = params_k ps * (Math_pow (d_in - 1) 2 + 2 * (d_in - 1)) * 1.5;
          epsilon_L = 0.03 * params_k ps * Math_pow p_ratio (Math_ceil (d / 2))
      in \<lparr>res_d = Some d, res_n_ancilla = Some n_ancilla, res_epsilon_L = epsilon_L,
          res_k = Some (params_k ps), res_n = params_n ps\<rparr>)"

definition color_calculateParams :: "params \<Rightarrow> result" where
  "color_calculateParams ps =
     (let p_ratio = params_p ps / 0.0036;
          d = Math_floor (Math_sqrt (params_n ps / params_k ps));
          n_ancilla = params_k ps * (Math_pow (d - 1) 2 + 2 * (d - 1));
          epsilon_L = 0.03 * params_k ps * Math_pow p_ratio (Math_ceil (d / 2))
      in \<lparr>res_d = Some d, res_n_ancilla = Some n_ancilla, res_epsilon_L = epsilon_L,
          res_k = Some (params_k ps), res_n = params_n ps\<rparr>)"

definition hypergraph_calculateParams :: "params \<Rightarrow> result" where
  "hypergraph_calculateParams ps =
     (let p_ratio = params_p ps / 0.006;
          epsilon_L = 0.07 * Math_pow p_ratio (0.47 * Math_pow (params_n ps) 0.27)
      in \<lparr>res_d = None, res_n_ancilla = None, res_epsilon_L = epsilon_L,
          res_k = None, res_n = params_n ps\<rparr>)"

definition lifted_calculateParams :: "params \<Rightarrow> result" where
  "lifted_calculateParams ps =
     (let p_ratio = params_p ps / 0.0066;
          epsilon_L = 2.3 * Math_pow p_ratio (0.11 * Math_pow (params_n ps) 0.60)
      in \<lparr>res_d = None, res_n_ancilla = None, res_epsilon_L = epsilon_L,
          res_k = None, res_n = params_n ps\<rparr>)"

text \<open>An entry of \<^verbatim>\<open>codeLibrary\<close>, and the library itself: a dictionary from the code id.\<close>

record code_entry =
  code_name :: string
  threshold :: real
  calculateParams :: "params \<Rightarrow> result"

definition codeLibrary :: "string \<Rightarrow> code_entry option" where
  "codeLibrary = map_of
     [(''surface'', \<lparr>code_name = ''Surface Code'', threshold = 0.011,
          calculateParams = surface_calculateParams\<rparr>),
      (''yoked_1d'', \<lparr>code_name = ''1D Yoked Surface Code'', threshold = 0.011,
          calculateParams = yoked_1d_calculateParams\<rparr>),
      (''yoked_2d'', \<lparr>code_name = ''2D Yoked Surface Code'', threshold = 0.011,
          calculateParams = yoked_2d_calculateParams\<rparr>),
      (''color'', \<lparr>code_name = ''Color Code'', threshold = 0.0036,
          calculateParams = color_calculateParams\<rparr>),
      (''hypergraph'', \<lparr>code_name = ''Hypergraph Product Code'', threshold = 0.006,
          calculateParams = hypergraph_calculateParams\<rparr>),
      (''lifted'', \<lparr>code_name = ''Lifted Product Code'', threshold = 0.0066,
          calculateParams = lifted_calculateParams\<rparr>)]"

section \<open>The bisection shared by the two searches\<close>

text \<open>
  \<^verbatim>\<open>minDiff\<close> starts at \<^verbatim>\<open>Infinity\<close>; \<open>less_numinf diff minDiff\<close> is the test
  \<^verbatim>\<open>diff < minDiff\<close> for a finite \<^verbatim>\<open>diff\<close>.
\<close>

datatype numinf = Finite real | Infinity

fun less_numinf :: "real \<Rightarrow> numinf \<Rightarrow> bool" where
  "less_numinf x Infinity = True"
| "less_numinf x (Finite m) = (x < m)"

text \<open>
  The local variables of a search. \<open>cur_n\<close> is the variable \<^verbatim>\<open>n\<close>. The field
  \<open>evaluated\<close> is not a variable of the source: it records, in order, every result that
  \<^verbatim>\<open>calculateParams\<close> returned to the loop, so that the number of executed loop bodies
  and the midpoints that were evaluated can be spoken about.
\<close>

record search =
  nMin :: real
  nMax :: real
  cur_n :: real
  minDiff :: numinf
  bestResult :: "result option"
  evaluated :: "result list"

definition search_init :: "real \<Rightarrow> search" where
  "search_init n_max =
     \<lparr>nMin = 10, nMax = n_max, cur_n = 10, minDiff = Infinity, bestResult = None,
      evaluated = []\<rparr>"

text \<open>
  One loop body, the same statements in \<^verbatim>\<open>findRequiredN\<close> (lines 1289 to 1302) and in
  \<^verbatim>\<open>generatePlotData\<close> (lines 1219 to 1232).
\<close>

definition bisect_body :: "code_entry \<Rightarrow> real \<Rightarrow> real \<Rightarrow> real \<Rightarrow> search \<Rightarrow> search" where
  "bisect_body selectedCode p k epsilon_L st =
     (let n = Math_floor ((nMin st + nMax st) / 2);
          result = calculateParams selectedCode
            \<lparr>params_p = p, params_n = n, params_k = k, params_epsilon_L = epsilon_L\<rparr>;
          diff = Math_abs (Math_log10 (res_epsilon_L result) - Math_log10 epsilon_L);
          st1 = st\<lparr>cur_n := n, evaluated := evaluated st @ [result]\<rparr>;
          st2 = (if less_numinf diff (minDiff st1)
                 then st1\<lparr>minDiff := Finite diff, bestResult := Some result\<rparr>
                 else st1)
      in if res_epsilon_L result > epsilon_L then st2\<lparr>nMin := n\<rparr> else st2\<lparr>nMax := n\<rparr>)"

section \<open>findRequiredN\<close>

function findRequiredN_loop ::
  "code_entry \<Rightarrow> real \<Rightarrow> real \<Rightarrow> real \<Rightarrow> nat \<Rightarrow> search \<Rightarrow> search" where
  "findRequiredN_loop selectedCode p k target_epsilon_L j st =
     (if j < 20
      then findRequiredN_loop selectedCode p k target_epsilon_L (j + 1)
             (bisect_body selectedCode p k target_epsilon_L st)
      else st)"
  by pat_completeness auto
termination
  by (relation "measure (\<lambda>(c, p, k, t, j, st). 20 - j)") auto

text \<open>\<open>None\<close> is the \<^verbatim>\<open>null\<close> that the source returns.\<close>

definition findRequiredN :: "string \<Rightarrow> real \<Rightarrow> real \<Rightarrow> real \<Rightarrow> result option" where
  "findRequiredN code p target_epsilon_L k =
     (case codeLibrary code of
        None \<Rightarrow> None
      | Some selectedCode \<Rightarrow>
          if p \<ge> threshold selectedCode then None
          else bestResult
                 (findRequiredN_loop selectedCode p k target_epsilon_L 0 (search_init 1000000)))"

section \<open>generatePlotData\<close>

text \<open>The inner loop: thirty bodies at most, left as soon as \<^verbatim>\<open>nMin > 1e9\<close>.\<close>

function plotSearch_loop ::
  "code_entry \<Rightarrow> real \<Rightarrow> real \<Rightarrow> real \<Rightarrow> nat \<Rightarrow> search \<Rightarrow> search" where
  "plotSearch_loop selectedCode p k epsilon_L j st =
     (if j < 30
      then (let st' = bisect_body selectedCode p k epsilon_L st
            in if nMin st' > 1000000000 then st'
               else plotSearch_loop selectedCode p k epsilon_L (j + 1) st')
      else st)"
  by pat_completeness auto
termination
  by (relation "measure (\<lambda>(c, p, k, e, j, st). 30 - j)") auto

record plot_data =
  pValues :: "real list"
  nValues :: "real list"
  kValues :: "real list"
  plot_threshold :: real

text \<open>The sample of index \<open>i\<close> (line 1201).\<close>

definition sample_p :: "real \<Rightarrow> nat \<Rightarrow> real" where
  "sample_p thr i =
     Math_pow 10 (Math_log10 0.000001 + (Math_log10 (thr * 0.99) - Math_log10 0.000001) * (real i / 49))"

function generatePlotData_loop ::
  "string \<Rightarrow> code_entry \<Rightarrow> real \<Rightarrow> real \<Rightarrow> nat \<Rightarrow> plot_data \<Rightarrow> plot_data" where
  "generatePlotData_loop code selectedCode epsilon_L k i acc =
     (if i < 50
      then (let p = sample_p (threshold selectedCode) i
            in if p \<ge> threshold selectedCode then acc
               else (let acc1 = acc\<lparr>pValues := pValues acc @ [p]\<rparr>;
                         st = plotSearch_loop selectedCode p k epsilon_L 0 (search_init 10000000000)
                     in if (case bestResult st of Some r \<Rightarrow> res_n r > 1000000000 | None \<Rightarrow> False)
                        then acc1
                        else (let physicalQubits =
                                    (case bestResult st of Some r \<Rightarrow> res_n r | None \<Rightarrow> cur_n st);
                                  logicalQubits =
                                    (if code = ''hypergraph''
                                     then Math_max 1 (Math_floor (0.04 * physicalQubits))
                                     else if code = ''lifted''
                                     then Math_max 1
                                            (Math_floor (0.38 * Math_pow physicalQubits 0.85))
                                     else 1)
                              in generatePlotData_loop code selectedCode epsilon_L k (i + 1)
                                   (acc1\<lparr>nValues := nValues acc1 @ [physicalQubits],
                                          kValues := kValues acc1 @ [logicalQubits]\<rparr>))))
      else acc)"
  by pat_completeness auto
termination
  by (relation "measure (\<lambda>(code, c, e, k, i, acc). 50 - i)") auto

definition generatePlotData :: "string \<Rightarrow> real \<Rightarrow> real \<Rightarrow> plot_data option" where
  "generatePlotData code epsilon_L k =
     (case codeLibrary code of
        None \<Rightarrow> None
      | Some selectedCode \<Rightarrow>
          Some (generatePlotData_loop code selectedCode epsilon_L k 0
                  \<lparr>pValues = [], nValues = [], kValues = [],
                   plot_threshold = threshold selectedCode\<rparr>))"

section \<open>calculateResults\<close>

text \<open>
  The inputs are held as numbers. \<^verbatim>\<open>parseFloat\<close> of a number is that number;
  \<^verbatim>\<open>parseInt\<close> of a number drops its fraction (for a number whose decimal notation has no
  exponent: \<open>x = 0\<close>, or \<open>\<bar>x\<bar>\<close> from \<open>1e-6\<close> up to, and without, \<open>1e21\<close>).
\<close>

definition parseFloat :: "real \<Rightarrow> real" where
  "parseFloat x = x"

definition parseInt :: "real \<Rightarrow> real" where
  "parseInt x = (if 0 \<le> x then of_int \<lfloor>x\<rfloor> else of_int \<lceil>x\<rceil>)"

record inputs =
  in_code :: string
  in_p :: real
  in_epsilon_L :: real
  in_n :: real
  in_k :: real
  in_d :: real

text \<open>
  The two pieces of component state that \<^verbatim>\<open>calculateResults\<close> writes; \<open>None\<close> is the
  initial \<^verbatim>\<open>{}\<close> of \<^verbatim>\<open>results\<close>. No \<^verbatim>\<open>calculateParams\<close> throws, so the \<^verbatim>\<open>catch\<close>
  branch has no counterpart.
\<close>

record app_state =
  st_results :: "result option"
  st_error :: string

definition calculateResults :: "app_state \<Rightarrow> inputs \<Rightarrow> app_state" where
  "calculateResults st inp =
     (let st1 = st\<lparr>st_error := ''''\<rparr>
      in case codeLibrary (in_code inp) of
           None \<Rightarrow>
             st1\<lparr>st_error := ''Code '' @ [CHR 0x22] @ in_code inp @ [CHR 0x22]
                                @ '' is not supported.''\<rparr>
         | Some selectedCode \<Rightarrow>
             (let ps = \<lparr>params_p = parseFloat (in_p inp), params_n = parseInt (in_n inp),
                         params_k = parseInt (in_k inp),
                         params_epsilon_L = parseFloat (in_epsilon_L inp)\<rparr>
              in st1\<lparr>st_results := Some (calculateParams selectedCode ps)\<rparr>))"

section \<open>The same functions over JavaScript numbers\<close>

text \<open>
  The definitions above read every number as a real. The ones of this section keep the
  values that the reals leave out: a JavaScript number is a finite number, \<^verbatim>\<open>Infinity\<close>,
  \<^verbatim>\<open>-Infinity\<close> or \<^verbatim>\<open>NaN\<close> (the two zeros, which compare equal, are one value).
  Comparison, \<^verbatim>\<open>Math.abs\<close>, \<^verbatim>\<open>Math.floor\<close> and
  \<^verbatim>\<open>Math.ceil\<close> are exact on doubles and are defined. The operations that round (the
  four arithmetic operations, \<^verbatim>\<open>Math.pow\<close>, \<^verbatim>\<open>Math.sqrt\<close>, \<^verbatim>\<open>Math.log10\<close> and the reading of a
  decimal literal) are parameters, collected in a record \<open>js_arith\<close>: a theorem proved for
  every \<open>js_arith\<close> holds for IEEE double arithmetic, whatever it rounds to and wherever
  it overflows or underflows.
\<close>

datatype jsnum = Fin real | PInf | NInf | NaN

text \<open>\<open>js_less a b\<close> is \<^verbatim>\<open>a < b\<close>, and \<open>js_ge a b\<close> is \<^verbatim>\<open>a >= b\<close>; both are false on \<^verbatim>\<open>NaN\<close>.\<close>

fun js_less :: "jsnum \<Rightarrow> jsnum \<Rightarrow> bool" where
  "js_less (Fin x) (Fin y) = (x < y)"
| "js_less (Fin x) PInf = True"
| "js_less NInf (Fin y) = True"
| "js_less NInf PInf = True"
| "js_less _ _ = False"

fun js_ge :: "jsnum \<Rightarrow> jsnum \<Rightarrow> bool" where
  "js_ge NaN _ = False"
| "js_ge _ NaN = False"
| "js_ge a b = (\<not> js_less a b)"

fun js_abs :: "jsnum \<Rightarrow> jsnum" where
  "js_abs (Fin x) = Fin \<bar>x\<bar>"
| "js_abs PInf = PInf"
| "js_abs NInf = PInf"
| "js_abs NaN = NaN"

fun js_floor :: "jsnum \<Rightarrow> jsnum" where
  "js_floor (Fin x) = Fin (of_int \<lfloor>x\<rfloor>)"
| "js_floor a = a"

fun js_ceil :: "jsnum \<Rightarrow> jsnum" where
  "js_ceil (Fin x) = Fin (of_int \<lceil>x\<rceil>)"
| "js_ceil a = a"

record js_arith =
  ar_lit :: "real \<Rightarrow> jsnum"
  ar_add :: "jsnum \<Rightarrow> jsnum \<Rightarrow> jsnum"
  ar_sub :: "jsnum \<Rightarrow> jsnum \<Rightarrow> jsnum"
  ar_mul :: "jsnum \<Rightarrow> jsnum \<Rightarrow> jsnum"
  ar_div :: "jsnum \<Rightarrow> jsnum \<Rightarrow> jsnum"
  ar_pow :: "jsnum \<Rightarrow> jsnum \<Rightarrow> jsnum"
  ar_sqrt :: "jsnum \<Rightarrow> jsnum"
  ar_log10 :: "jsnum \<Rightarrow> jsnum"

record js_params =
  js_p :: jsnum
  js_n :: jsnum
  js_k :: jsnum
  js_epsilon_L :: jsnum

record js_result =
  jr_d :: "jsnum option"
  jr_n_ancilla :: "jsnum option"
  jr_epsilon_L :: jsnum
  jr_k :: "jsnum option"
  jr_n :: jsnum

text \<open>
  The six \<^verbatim>\<open>calculateParams\<close>, operation by operation and in the source's order of
  evaluation (\<^verbatim>\<open>a * b * c\<close> is \<^verbatim>\<open>(a * b) * c\<close>). Small integers are exact doubles and
  are written \<open>Fin 1\<close>, \<open>Fin 2\<close>; a decimal literal goes through \<open>ar_lit\<close>.
\<close>

definition surface_calculateParams_js :: "js_arith \<Rightarrow> js_params \<Rightarrow> js_result" where
  "surface_calculateParams_js A ps =
     (let p_ratio = ar_div A (js_p ps) (ar_lit A 0.011);
          d = js_floor (ar_sqrt A (ar_div A (js_n ps) (js_k ps)));
          n_ancilla = ar_mul A (js_k ps)
            (ar_add A (ar_pow A (ar_sub A d (Fin 1)) (Fin 2))
               (ar_mul A (Fin 2) (ar_sub A d (Fin 1))));
          epsilon_L = ar_mul A (ar_mul A (ar_lit A 0.03) (js_k ps))
            (ar_pow A p_ratio (ar_div A d (Fin 2)))
      in \<lparr>jr_d = Some d, jr_n_ancilla = Some n_ancilla, jr_epsilon_L = epsilon_L,
          jr_k = Some (js_k ps), jr_n = js_n ps\<rparr>)"

definition yoked_1d_calculateParams_js :: "js_arith \<Rightarrow> js_params \<Rightarrow> js_result" where
  "yoked_1d_calculateParams_js A ps =
     (let p_ratio = ar_div A (js_p ps) (ar_lit A 0.011);
          d_in = js_floor (ar_sqrt A (ar_div A (js_n ps) (js_k ps)));
          mu_1d = ar_lit A 1.8;
          d = js_floor (ar_mul A mu_1d d_in);
          n_ancilla = ar_mul A
            (ar_mul A (js_k ps)
               (ar_add A (ar_pow A (ar_sub A d_in (Fin 1)) (Fin 2))
                  (ar_mul A (Fin 2) (ar_sub A d_in (Fin 1)))))
            (ar_lit A 1.2);
          epsilon_L = ar_mul A (ar_mul A (ar_lit A 0.03) (js_k ps))
            (ar_pow A p_ratio (js_ceil (ar_div A d (Fin 2))))
      in \<lparr>jr_d = Some d, jr_n_ancilla = Some n_ancilla, jr_epsilon_L = epsilon_L,
          jr_k = Some (js_k ps), jr_n = js_n ps\<rparr>)"

definition yoked_2d_calculateParams_js :: "js_arith \<Rightarrow> js_params \<Rightarrow> js_result" where
  "yoked_2d_calculateParams_js A ps =
     (let p_ratio = ar_div A (js_p ps) (ar_lit A 0.011);
          d_in = js_floor (ar_sqrt A (ar_div A (js_n ps) (js_k ps)));
          mu_2d = ar_lit A 3.2;
          d = js_floor (ar_mul A mu_2d d_in);
          n_ancilla = ar_mul A
            (ar_mul A (js_k ps)
               (ar_add A (ar_pow A (ar_sub A d_in (Fin 1)) (Fin 2))
                  (ar_mul A (Fin 2) (ar_sub A d_in (Fin 1)))))
            (ar_lit A 1.5);
          epsilon_L = ar_mul A (ar_mul A (ar_lit A 0.03) (js_k ps))
            (ar_pow A p_ratio (js_ceil (ar_div A d (Fin 2))))
      in \<lparr>jr_d = Some d, jr_n_ancilla = Some n_ancilla, jr_epsilon_L = epsilon_L,
          jr_k = Some (js_k ps), jr_n = js_n ps\<rparr>)"

definition color_calculateParams_js :: "js_arith \<Rightarrow> js_params \<Rightarrow> js_result" where
  "color_calculateParams_js A ps =
     (let p_ratio = ar_div A (js_p ps) (ar_lit A 0.0036);
          d = js_floor (ar_sqrt A (ar_div A (js_n ps) (js_k ps)));
          n_ancilla = ar_mul A (js_k ps)
            (ar_add A (ar_pow A (ar_sub A d (Fin 1)) (Fin 2))
               (ar_mul A (Fin 2) (ar_sub A d (Fin 1))));
          epsilon_L = ar_mul A (ar_mul A (ar_lit A 0.03) (js_k ps))
            (ar_pow A p_ratio (js_ceil (ar_div A d (Fin 2))))
      in \<lparr>jr_d = Some d, jr_n_ancilla = Some n_ancilla, jr_epsilon_L = epsilon_L,
          jr_k = Some (js_k ps), jr_n = js_n ps\<rparr>)"

definition hypergraph_calculateParams_js :: "js_arith \<Rightarrow> js_params \<Rightarrow> js_result" where
  "hypergraph_calculateParams_js A ps =
     (let p_ratio = ar_div A (js_p ps) (ar_lit A 0.006);
          epsilon_L = ar_mul A (ar_lit A 0.07)
            (ar_pow A p_ratio (ar_mul A (ar_lit A 0.47) (ar_pow A (js_n ps) (ar_lit A 0.27))))
      in \<lparr>jr_d = None, jr_n_ancilla = None, jr_epsilon_L = epsilon_L,
          jr_k = None, jr_n = js_n ps\<rparr>)"

definition lifted_calculateParams_js :: "js_arith \<Rightarrow> js_params \<Rightarrow> js_result" where
  "lifted_calculateParams_js A ps =
     (let p_ratio = ar_div A (js_p ps) (ar_lit A 0.0066);
          epsilon_L = ar_mul A (ar_lit A 2.3)
            (ar_pow A p_ratio (ar_mul A (ar_lit A 0.11) (ar_pow A (js_n ps) (ar_lit A 0.60))))
      in \<lparr>jr_d = None, jr_n_ancilla = None, jr_epsilon_L = epsilon_L,
          jr_k = None, jr_n = js_n ps\<rparr>)"

record js_code_entry =
  js_code_name :: string
  js_threshold :: jsnum
  js_calculateParams :: "js_params \<Rightarrow> js_result"

definition codeLibrary_js :: "js_arith \<Rightarrow> string \<Rightarrow> js_code_entry option" where
  "codeLibrary_js A = map_of
     [(''surface'', \<lparr>js_code_name = ''Surface Code'', js_threshold = ar_lit A 0.011,
          js_calculateParams = surface_calculateParams_js A\<rparr>),
      (''yoked_1d'', \<lparr>js_code_name = ''1D Yoked Surface Code'', js_threshold = ar_lit A 0.011,
          js_calculateParams = yoked_1d_calculateParams_js A\<rparr>),
      (''yoked_2d'', \<lparr>js_code_name = ''2D Yoked Surface Code'', js_threshold = ar_lit A 0.011,
          js_calculateParams = yoked_2d_calculateParams_js A\<rparr>),
      (''color'', \<lparr>js_code_name = ''Color Code'', js_threshold = ar_lit A 0.0036,
          js_calculateParams = color_calculateParams_js A\<rparr>),
      (''hypergraph'', \<lparr>js_code_name = ''Hypergraph Product Code'',
          js_threshold = ar_lit A 0.006,
          js_calculateParams = hypergraph_calculateParams_js A\<rparr>),
      (''lifted'', \<lparr>js_code_name = ''Lifted Product Code'', js_threshold = ar_lit A 0.0066,
          js_calculateParams = lifted_calculateParams_js A\<rparr>)]"

text \<open>
  The variables of a search, as in \<open>search\<close> above; \<open>js_evaluated\<close> is again the record
  of the results evaluated, not a variable of the source.
\<close>

record js_search =
  js_nMin :: jsnum
  js_nMax :: jsnum
  js_cur_n :: jsnum
  js_minDiff :: jsnum
  js_bestResult :: "js_result option"
  js_evaluated :: "js_result list"

definition search_init_js :: "jsnum \<Rightarrow> js_search" where
  "search_init_js n_max =
     \<lparr>js_nMin = Fin 10, js_nMax = n_max, js_cur_n = Fin 10, js_minDiff = PInf,
      js_bestResult = None, js_evaluated = []\<rparr>"

definition bisect_body_js ::
  "js_arith \<Rightarrow> js_code_entry \<Rightarrow> jsnum \<Rightarrow> jsnum \<Rightarrow> jsnum \<Rightarrow> js_search \<Rightarrow> js_search" where
  "bisect_body_js A selectedCode p k epsilon_L st =
     (let n = js_floor (ar_div A (ar_add A (js_nMin st) (js_nMax st)) (Fin 2));
          result = js_calculateParams selectedCode
            \<lparr>js_p = p, js_n = n, js_k = k, js_epsilon_L = epsilon_L\<rparr>;
          diff = js_abs (ar_sub A (ar_log10 A (jr_epsilon_L result)) (ar_log10 A epsilon_L));
          st1 = st\<lparr>js_cur_n := n, js_evaluated := js_evaluated st @ [result]\<rparr>;
          st2 = (if js_less diff (js_minDiff st1)
                 then st1\<lparr>js_minDiff := diff, js_bestResult := Some result\<rparr>
                 else st1)
      in if js_less epsilon_L (jr_epsilon_L result)
         then st2\<lparr>js_nMin := n\<rparr> else st2\<lparr>js_nMax := n\<rparr>)"

function findRequiredN_loop_js ::
  "js_arith \<Rightarrow> js_code_entry \<Rightarrow> jsnum \<Rightarrow> jsnum \<Rightarrow> jsnum \<Rightarrow> nat \<Rightarrow> js_search \<Rightarrow> js_search"
  where
  "findRequiredN_loop_js A selectedCode p k target_epsilon_L j st =
     (if j < 20
      then findRequiredN_loop_js A selectedCode p k target_epsilon_L (j + 1)
             (bisect_body_js A selectedCode p k target_epsilon_L st)
      else st)"
  by pat_completeness auto
termination
  by (relation "measure (\<lambda>(A, c, p, k, t, j, st). 20 - j)") auto

definition findRequiredN_js ::
  "js_arith \<Rightarrow> string \<Rightarrow> jsnum \<Rightarrow> jsnum \<Rightarrow> jsnum \<Rightarrow> js_result option" where
  "findRequiredN_js A code p target_epsilon_L k =
     (case codeLibrary_js A code of
        None \<Rightarrow> None
      | Some selectedCode \<Rightarrow>
          if js_ge p (js_threshold selectedCode) then None
          else js_bestResult
                 (findRequiredN_loop_js A selectedCode p k target_epsilon_L 0
                    (search_init_js (Fin 1000000))))"

function plotSearch_loop_js ::
  "js_arith \<Rightarrow> js_code_entry \<Rightarrow> jsnum \<Rightarrow> jsnum \<Rightarrow> jsnum \<Rightarrow> nat \<Rightarrow> js_search \<Rightarrow> js_search"
  where
  "plotSearch_loop_js A selectedCode p k epsilon_L j st =
     (if j < 30
      then (let st' = bisect_body_js A selectedCode p k epsilon_L st
            in if js_less (Fin 1000000000) (js_nMin st') then st'
               else plotSearch_loop_js A selectedCode p k epsilon_L (j + 1) st')
      else st)"
  by pat_completeness auto
termination
  by (relation "measure (\<lambda>(A, c, p, k, e, j, st). 30 - j)") auto

section \<open>Bisection and best result, as the specification words them\<close>

text \<open>
  The bracket after \<open>i\<close> steps of a bisection started from \<open>(lo, hi)\<close>: each step
  evaluates the midpoint \<open>\<lfloor>(lo + hi) / 2\<rfloor>\<close> and, if the logical error rate there exceeds the
  target, raises the lower bound to the midpoint, else lowers the upper bound to it.
  \<open>bracket_result \<dots> i\<close> is the result evaluated by step \<open>i\<close> (counted from \<open>0\<close>).
\<close>

definition js_midpoint :: "js_arith \<Rightarrow> jsnum \<times> jsnum \<Rightarrow> jsnum" where
  "js_midpoint A b = js_floor (ar_div A (ar_add A (fst b) (snd b)) (Fin 2))"

definition evaluate_at :: "js_code_entry \<Rightarrow> jsnum \<Rightarrow> jsnum \<Rightarrow> jsnum \<Rightarrow> jsnum \<Rightarrow> js_result" where
  "evaluate_at c p k target n =
     js_calculateParams c \<lparr>js_p = p, js_n = n, js_k = k, js_epsilon_L = target\<rparr>"

primrec bisection_bracket ::
  "js_arith \<Rightarrow> js_code_entry \<Rightarrow> jsnum \<Rightarrow> jsnum \<Rightarrow> jsnum \<Rightarrow> jsnum \<times> jsnum \<Rightarrow> nat
     \<Rightarrow> jsnum \<times> jsnum" where
  "bisection_bracket A c p k target b 0 = b"
| "bisection_bracket A c p k target b (Suc i) =
     (let b' = bisection_bracket A c p k target b i;
          mid = js_midpoint A b'
      in if js_less target (jr_epsilon_L (evaluate_at c p k target mid))
         then (mid, snd b') else (fst b', mid))"

definition bracket_result ::
  "js_arith \<Rightarrow> js_code_entry \<Rightarrow> jsnum \<Rightarrow> jsnum \<Rightarrow> jsnum \<Rightarrow> jsnum \<times> jsnum \<Rightarrow> nat \<Rightarrow> js_result"
  where
  "bracket_result A c p k target b i =
     evaluate_at c p k target (js_midpoint A (bisection_bracket A c p k target b i))"

text \<open>
  A search state follows the bisection for \<open>m\<close> steps when its bounds are the bracket
  after \<open>m\<close> steps and the results it evaluated are those of steps \<open>0\<close> to \<open>m - 1\<close>.
\<close>

definition follows_bisection ::
  "js_arith \<Rightarrow> js_code_entry \<Rightarrow> jsnum \<Rightarrow> jsnum \<Rightarrow> jsnum \<Rightarrow> jsnum \<times> jsnum \<Rightarrow> nat \<Rightarrow> js_search
     \<Rightarrow> bool" where
  "follows_bisection A c p k target b m st =
     ((js_nMin st, js_nMax st) = bisection_bracket A c p k target b m
      \<and> js_evaluated st = map (bracket_result A c p k target b) [0..<m])"

text \<open>
  The distance \<^verbatim>\<open>Math.abs(Math.log10(epsilon_L) - Math.log10(target))\<close> of a result, as
  the arithmetic computes it. A state keeps the best result when \<^verbatim>\<open>bestResult\<close> is
  \<^verbatim>\<open>null\<close> and no result evaluated has a distance below \<^verbatim>\<open>Infinity\<close>, or \<^verbatim>\<open>bestResult\<close>
  is a result evaluated, its distance is below \<^verbatim>\<open>Infinity\<close>, and no result evaluated
  has a smaller one.
\<close>

definition js_log_distance :: "js_arith \<Rightarrow> jsnum \<Rightarrow> js_result \<Rightarrow> jsnum" where
  "js_log_distance A target r =
     js_abs (ar_sub A (ar_log10 A (jr_epsilon_L r)) (ar_log10 A target))"

definition keeps_best :: "js_arith \<Rightarrow> jsnum \<Rightarrow> js_search \<Rightarrow> bool" where
  "keeps_best A target st =
     (case js_bestResult st of
        None \<Rightarrow>
          list_all (\<lambda>r. \<not> js_less (js_log_distance A target r) PInf) (js_evaluated st)
      | Some r \<Rightarrow>
          r \<in> set (js_evaluated st) \<and> js_less (js_log_distance A target r) PInf
          \<and> list_all (\<lambda>r'. \<not> js_less (js_log_distance A target r') (js_log_distance A target r))
                (js_evaluated st))"

section \<open>The registry table, as the specification words it\<close>












section \<open>The arithmetic of the real-number reading\<close>

text \<open>
  The operations of the first sections, as a \<open>js_arith\<close>: exact on finite numbers, \<^verbatim>\<open>NaN\<close>
  elsewhere. It is an example of an arithmetic, with which the general theorems are
  instantiated.
\<close>

fun lift1 :: "(real \<Rightarrow> real) \<Rightarrow> jsnum \<Rightarrow> jsnum" where
  "lift1 f (Fin x) = Fin (f x)"
| "lift1 f _ = NaN"

fun lift2 :: "(real \<Rightarrow> real \<Rightarrow> real) \<Rightarrow> jsnum \<Rightarrow> jsnum \<Rightarrow> jsnum" where
  "lift2 f (Fin x) (Fin y) = Fin (f x y)"
| "lift2 f _ _ = NaN"

definition real_arith :: js_arith where
  "real_arith =
     \<lparr>ar_lit = Fin, ar_add = lift2 (+), ar_sub = lift2 (-), ar_mul = lift2 (*),
      ar_div = lift2 (/), ar_pow = lift2 Math_pow, ar_sqrt = lift1 Math_sqrt,
      ar_log10 = lift1 Math_log10\<rparr>"

section \<open>Auxiliary facts\<close>

text \<open>The loops are unfolded by hand, one body at a time.\<close>

declare findRequiredN_loop.simps [simp del]
declare plotSearch_loop.simps [simp del]
declare generatePlotData_loop.simps [simp del]
declare findRequiredN_loop_js.simps [simp del]
declare plotSearch_loop_js.simps [simp del]

lemma floor_sqrt_eq:
  assumes "(real m)\<^sup>2 \<le> x" and "x < (real m + 1)\<^sup>2"
  shows "\<lfloor>sqrt x\<rfloor> = int m"
proof -
  have lo: "real m \<le> sqrt x"
    using assms(1) by (rule real_le_rsqrt)
  have hi: "sqrt x < real m + 1"
    using assms(2) by (intro real_less_lsqrt) simp_all
  show ?thesis
    using lo hi by (intro floor_unique) simp_all
qed

lemma Math_pow_pos: "0 < x \<Longrightarrow> Math_pow x y = x powr y"
  by (simp add: Math_pow_def)


section \<open>The registry against the table of the specification\<close>




section \<open>The forward evaluator on the test vectors\<close>

text \<open>
  C2: the surface code at \<open>p = 0.001\<close>, \<open>n = 1000\<close>, \<open>k = 1\<close> has distance \<open>31\<close>, \<open>960\<close>
  ancilla qubits and logical error rate \<open>0.03 * (0.001 / 0.011) ^ 15.5\<close>; at \<open>n = 9\<close>,
  \<open>k = 1\<close> it has distance \<open>3\<close> and \<open>8\<close> ancilla qubits.
\<close>

theorem surface_test_vectors:
  "map_option (\<lambda>c. calculateParams c
        \<lparr>params_p = 0.001, params_n = 1000, params_k = 1, params_epsilon_L = t\<rparr>)
      (codeLibrary ''surface'')
    = Some \<lparr>res_d = Some 31, res_n_ancilla = Some 960,
        res_epsilon_L = 0.03 * (0.001 / 0.011) powr 15.5, res_k = Some 1, res_n = 1000\<rparr>
   \<and> map_option (\<lambda>c. calculateParams c
        \<lparr>params_p = 0.001, params_n = 9, params_k = 1, params_epsilon_L = t\<rparr>)
      (codeLibrary ''surface'')
    = Some \<lparr>res_d = Some 3, res_n_ancilla = Some 8,
        res_epsilon_L = 0.03 * (0.001 / 0.011) powr 1.5, res_k = Some 1, res_n = 9\<rparr>"
proof -
  have f1: "\<lfloor>sqrt (1000::real)\<rfloor> = 31"
    using floor_sqrt_eq [of 31 1000] by simp
  have f2: "\<lfloor>sqrt (9::real)\<rfloor> = 3"
    using floor_sqrt_eq [of 3 9] by simp
  show ?thesis
    by (simp add: codeLibrary_def surface_calculateParams_def Math_floor_def Math_sqrt_def
        Math_pow_def f1 f2 Let_def)
qed

section \<open>The registry and the forward evaluator\<close>

lemma registered_cases:
  assumes "codeLibrary cid = Some c"
  obtains
    "cid = ''surface''"
      "c = \<lparr>code_name = ''Surface Code'', threshold = 0.011,
             calculateParams = surface_calculateParams\<rparr>"
  | "cid = ''yoked_1d''"
      "c = \<lparr>code_name = ''1D Yoked Surface Code'', threshold = 0.011,
             calculateParams = yoked_1d_calculateParams\<rparr>"
  | "cid = ''yoked_2d''"
      "c = \<lparr>code_name = ''2D Yoked Surface Code'', threshold = 0.011,
             calculateParams = yoked_2d_calculateParams\<rparr>"
  | "cid = ''color''"
      "c = \<lparr>code_name = ''Color Code'', threshold = 0.0036,
             calculateParams = color_calculateParams\<rparr>"
  | "cid = ''hypergraph''"
      "c = \<lparr>code_name = ''Hypergraph Product Code'', threshold = 0.006,
             calculateParams = hypergraph_calculateParams\<rparr>"
  | "cid = ''lifted''"
      "c = \<lparr>code_name = ''Lifted Product Code'', threshold = 0.0066,
             calculateParams = lifted_calculateParams\<rparr>"
  using assms unfolding codeLibrary_def
  by (auto split: if_splits)

lemmas Math_defs = Math_floor_def Math_sqrt_def Math_ceil_def

lemma d_in_eq_0:
  assumes "1 \<le> n" and "n < k"
  shows "\<lfloor>sqrt (real n / real k)\<rfloor> = 0"
proof -
  have "real n / real k < 1"
    using assms by (simp add: field_simps)
  then have "sqrt (real n / real k) < 1"
    by simp
  moreover have "0 \<le> sqrt (real n / real k)"
    by simp
  ultimately show ?thesis
    by linarith
qed

lemma Math_pow_minus_one_two: "Math_pow (- 1) 2 = 1"
  by (simp add: Math_pow_def)

text \<open>
  C10: for every distance-based code and integers \<open>1 \<le> n < k\<close> (any \<open>p\<close> strictly
  between \<open>0\<close> and \<open>1\<close>) the evaluator returns a result with \<open>d = 0\<close> and a strictly
  negative ancilla count: \<open>- k\<close> for surface and color, \<open>- 1.2 * k\<close> for yoked_1d and
  \<open>- 1.5 * k\<close> for yoked_2d.
\<close>

theorem degenerate_distance_negative_ancilla:
  assumes reg: "codeLibrary cid = Some c"
    and dist: "cid = ''surface'' \<or> cid = ''color'' \<or> cid = ''yoked_1d'' \<or> cid = ''yoked_2d''"
    and p: "0 < p" "p < 1"
    and nk: "1 \<le> n" "n < k"
  shows "res_d (calculateParams c
           \<lparr>params_p = p, params_n = real n, params_k = real k, params_epsilon_L = t\<rparr>)
         = Some 0
       \<and> res_n_ancilla (calculateParams c
           \<lparr>params_p = p, params_n = real n, params_k = real k, params_epsilon_L = t\<rparr>)
         = Some (if cid = ''yoked_1d'' then - 1.2 * real k
                 else if cid = ''yoked_2d'' then - 1.5 * real k
                 else - real k)
       \<and> (if cid = ''yoked_1d'' then - 1.2 * real k
           else if cid = ''yoked_2d'' then - 1.5 * real k
           else - real k) < 0"
proof -
  have d: "\<lfloor>sqrt (real n / real k)\<rfloor> = 0"
    using nk by (rule d_in_eq_0)
  have k: "0 < real k"
    using nk by simp
  from reg show ?thesis
  proof (cases rule: registered_cases)
    case 1
    then show ?thesis
      using k by (simp add: surface_calculateParams_def Math_defs d Math_pow_minus_one_two)
  next
    case 2
    then show ?thesis
      using k by (simp add: yoked_1d_calculateParams_def Math_defs d Math_pow_minus_one_two)
  next
    case 3
    then show ?thesis
      using k by (simp add: yoked_2d_calculateParams_def Math_defs d Math_pow_minus_one_two)
  next
    case 4
    then show ?thesis
      using k by (simp add: color_calculateParams_def Math_defs d Math_pow_minus_one_two)
  next
    case 5
    then show ?thesis
      using dist by simp
  next
    case 6
    then show ?thesis
      using dist by simp
  qed
qed

theorem degenerate_distance_negative_ancilla_witness:
  "codeLibrary ''yoked_2d''
     = Some \<lparr>code_name = ''2D Yoked Surface Code'', threshold = 0.011,
             calculateParams = yoked_2d_calculateParams\<rparr>
   \<and> (0::real) < 0.001 \<and> (0.001::real) < 1 \<and> (1::nat) \<le> 3 \<and> (3::nat) < 4
   \<and> res_d (yoked_2d_calculateParams
        \<lparr>params_p = 0.001, params_n = 3, params_k = 4, params_epsilon_L = 0.000001\<rparr>)
      = Some 0
   \<and> res_n_ancilla (yoked_2d_calculateParams
        \<lparr>params_p = 0.001, params_n = 3, params_k = 4, params_epsilon_L = 0.000001\<rparr>)
      = Some (- 6)"
  using degenerate_distance_negative_ancilla
    [of "''yoked_2d''"
        "\<lparr>code_name = ''2D Yoked Surface Code'', threshold = 0.011,
          calculateParams = yoked_2d_calculateParams\<rparr>"
        "0.001" 3 4 "0.000001"]
  by (simp add: codeLibrary_def)

section \<open>findRequiredN above the threshold\<close>

text \<open>
  C3: for every registered code, every \<open>k\<close>, every target and every \<open>p\<close> that is at
  least the threshold of the code, \<^verbatim>\<open>findRequiredN\<close> returns \<^verbatim>\<open>null\<close>.
\<close>

theorem findRequiredN_above_threshold:
  assumes "codeLibrary cid = Some c" and "threshold c \<le> p" and "1 \<le> k"
  shows "findRequiredN cid p target k = None"
  using assms by (simp add: findRequiredN_def)

theorem findRequiredN_above_threshold_witness:
  "codeLibrary ''color''
     = Some \<lparr>code_name = ''Color Code'', threshold = 0.0036,
             calculateParams = color_calculateParams\<rparr>
   \<and> (0.0036::real) \<le> 0.0036 \<and> (1::real) \<le> 1
   \<and> findRequiredN ''color'' 0.0036 0.000001 1 = None"
  using findRequiredN_above_threshold
    [of "''color''"
        "\<lparr>code_name = ''Color Code'', threshold = 0.0036,
          calculateParams = color_calculateParams\<rparr>"
        "0.0036" 1 "0.000001"]
  by (simp add: codeLibrary_def)

section \<open>Inputs outside the numeric domain\<close>

text \<open>
  C9, as stated, fails: at the non-positive input \<open>p = 0\<close> (surface code, \<open>n = 1000\<close>,
  \<open>k = 1\<close>) \<^verbatim>\<open>calculateResults\<close> stores a numeric result, with logical error rate \<open>0\<close>,
  and reports no error.
\<close>

theorem calculateResults_zero_p_counterexample:
  "calculateResults \<lparr>st_results = None, st_error = ''''\<rparr>
     \<lparr>in_code = ''surface'', in_p = 0, in_epsilon_L = 0.000001, in_n = 1000, in_k = 1,
      in_d = 3\<rparr>
   = \<lparr>st_results = Some \<lparr>res_d = Some 31, res_n_ancilla = Some 960, res_epsilon_L = 0,
         res_k = Some 1, res_n = 1000\<rparr>,
      st_error = ''''\<rparr>"
proof -
  have "\<lfloor>sqrt (1000::real)\<rfloor> = 31"
    using floor_sqrt_eq [of 31 1000] by simp
  then show ?thesis
    by (simp add: calculateResults_def codeLibrary_def surface_calculateParams_def
        parseFloat_def parseInt_def Math_defs Math_pow_def Let_def)
qed

text \<open>
  C9, amended: the evaluator validates nothing. For every registered code and all numeric
  inputs, \<^verbatim>\<open>calculateResults\<close> stores the result of \<^verbatim>\<open>calculateParams\<close> and leaves the
  error message empty.
\<close>

theorem calculateResults_never_rejects:
  assumes "codeLibrary (in_code inp) = Some c"
  shows "st_error (calculateResults st inp) = ''''
       \<and> st_results (calculateResults st inp)
         = Some (calculateParams c
             \<lparr>params_p = in_p inp, params_n = parseInt (in_n inp),
              params_k = parseInt (in_k inp), params_epsilon_L = in_epsilon_L inp\<rparr>)"
  using assms by (simp add: calculateResults_def parseFloat_def Let_def)

theorem calculateResults_never_rejects_witness:
  "codeLibrary (in_code \<lparr>in_code = ''hypergraph'', in_p = 0, in_epsilon_L = 0.000001,
        in_n = 1000, in_k = 1, in_d = 3\<rparr>)
     = Some \<lparr>code_name = ''Hypergraph Product Code'', threshold = 0.006,
             calculateParams = hypergraph_calculateParams\<rparr>
   \<and> st_error (calculateResults \<lparr>st_results = None, st_error = ''''\<rparr>
        \<lparr>in_code = ''hypergraph'', in_p = 0, in_epsilon_L = 0.000001, in_n = 1000, in_k = 1,
         in_d = 3\<rparr>) = ''''
   \<and> st_results (calculateResults \<lparr>st_results = None, st_error = ''''\<rparr>
        \<lparr>in_code = ''hypergraph'', in_p = 0, in_epsilon_L = 0.000001, in_n = 1000, in_k = 1,
         in_d = 3\<rparr>)
      = Some (hypergraph_calculateParams
          \<lparr>params_p = 0, params_n = 1000, params_k = 1, params_epsilon_L = 0.000001\<rparr>)"
  using calculateResults_never_rejects
    [of "\<lparr>in_code = ''hypergraph'', in_p = 0, in_epsilon_L = 0.000001, in_n = 1000, in_k = 1,
          in_d = 3\<rparr>"
        "\<lparr>code_name = ''Hypergraph Product Code'', threshold = 0.006,
          calculateParams = hypergraph_calculateParams\<rparr>"
        "\<lparr>st_results = None, st_error = ''''\<rparr>"]
  by (simp add: codeLibrary_def parseInt_def)
section \<open>Monotonicity in the number of physical qubits\<close>

text \<open>
  C7, as stated, fails: the distance is a step function of \<open>n\<close>. The surface code at
  \<open>p = 0.001\<close>, \<open>k = 1\<close> returns for \<open>n = 10\<close> the distance \<open>3\<close> and the logical error rate
  that it returns for \<open>n = 9\<close>.
\<close>

theorem surface_distance_plateau_counterexample:
  "map_option (\<lambda>c. calculateParams c
        \<lparr>params_p = 0.001, params_n = 9, params_k = 1, params_epsilon_L = 0.000001\<rparr>)
      (codeLibrary ''surface'')
    = Some \<lparr>res_d = Some 3, res_n_ancilla = Some 8,
        res_epsilon_L = 0.03 * (0.001 / 0.011) powr 1.5, res_k = Some 1, res_n = 9\<rparr>
   \<and> map_option (\<lambda>c. calculateParams c
        \<lparr>params_p = 0.001, params_n = 10, params_k = 1, params_epsilon_L = 0.000001\<rparr>)
      (codeLibrary ''surface'')
    = Some \<lparr>res_d = Some 3, res_n_ancilla = Some 8,
        res_epsilon_L = 0.03 * (0.001 / 0.011) powr 1.5, res_k = Some 1, res_n = 10\<rparr>"
proof -
  have f1: "\<lfloor>sqrt (9::real)\<rfloor> = 3"
    using floor_sqrt_eq [of 3 9] by simp
  have f2: "\<lfloor>sqrt (10::real)\<rfloor> = 3"
    using floor_sqrt_eq [of 3 10] by simp
  show ?thesis
    by (simp add: codeLibrary_def surface_calculateParams_def Math_defs Math_pow_def f1 f2
        Let_def)
qed

lemma d_in_mono:
  assumes "1 \<le> k" and "n1 \<le> n2"
  shows "\<lfloor>sqrt (real n1 / real k)\<rfloor> \<le> \<lfloor>sqrt (real n2 / real k)\<rfloor>"
proof -
  have "real n1 / real k \<le> real n2 / real k"
    using assms by (simp add: divide_right_mono)
  then have "sqrt (real n1 / real k) \<le> sqrt (real n2 / real k)"
    by simp
  then show ?thesis
    by (rule floor_mono)
qed

lemma scaled_floor_mono:
  fixes a b :: int and m :: real
  assumes "a \<le> b" and "0 \<le> m"
  shows "\<lfloor>m * real_of_int a\<rfloor> \<le> \<lfloor>m * real_of_int b\<rfloor>"
  using assms by (intro floor_mono mult_left_mono) simp_all

lemma power_law_antimono:
  fixes r e1 e2 c :: real
  assumes "0 < r" and "r \<le> 1" and "e1 \<le> e2" and "0 \<le> c"
  shows "c * Math_pow r e2 \<le> c * Math_pow r e1"
proof -
  have "r powr e2 \<le> r powr e1"
    using assms(3) assms(1,2) by (intro powr_mono') simp_all
  then show ?thesis
    using assms(1,4) by (simp add: Math_pow_pos mult_left_mono)
qed

text \<open>
  C7, amended: for every distance-based code, \<open>0 < p\<close> below the threshold, \<open>k \<ge> 1\<close> and
  integers \<open>n2 > n1 \<ge> k\<close>, the distance at \<open>n2\<close> is at least the distance at \<open>n1\<close> and
  the logical error rate at \<open>n2\<close> is at most the one at \<open>n1\<close>.
\<close>

theorem distance_codes_monotone_in_n:
  assumes reg: "codeLibrary cid = Some c"
    and dist: "cid = ''surface'' \<or> cid = ''color'' \<or> cid = ''yoked_1d'' \<or> cid = ''yoked_2d''"
    and p: "0 < p" "p < threshold c"
    and nk: "1 \<le> k" "k \<le> n1" "n1 < n2"
  shows "\<exists>d1 d2.
           res_d (calculateParams c
             \<lparr>params_p = p, params_n = real n1, params_k = real k, params_epsilon_L = t\<rparr>)
             = Some d1
         \<and> res_d (calculateParams c
             \<lparr>params_p = p, params_n = real n2, params_k = real k, params_epsilon_L = t\<rparr>)
             = Some d2
         \<and> d1 \<le> d2
         \<and> res_epsilon_L (calculateParams c
             \<lparr>params_p = p, params_n = real n2, params_k = real k, params_epsilon_L = t\<rparr>)
           \<le> res_epsilon_L (calculateParams c
             \<lparr>params_p = p, params_n = real n1, params_k = real k, params_epsilon_L = t\<rparr>)"
proof -
  have din: "\<lfloor>sqrt (real n1 / real k)\<rfloor> \<le> \<lfloor>sqrt (real n2 / real k)\<rfloor>"
    using nk by (intro d_in_mono) simp_all
  have k0: "0 \<le> 0.03 * real k"
    by simp
  from reg show ?thesis
  proof (cases rule: registered_cases)
    case 1
    have r: "0 < p / 0.011" "p / 0.011 \<le> 1"
      using p 1 by simp_all
    have e: "real_of_int \<lfloor>sqrt (real n1 / real k)\<rfloor> / 2
               \<le> real_of_int \<lfloor>sqrt (real n2 / real k)\<rfloor> / 2"
      using din by simp
    show ?thesis
      using din power_law_antimono [OF r e k0] 1
      by (simp add: surface_calculateParams_def Math_defs Let_def)
  next
    case 2
    have r: "0 < p / 0.011" "p / 0.011 \<le> 1"
      using p 2 by simp_all
    have d: "\<lfloor>1.8 * real_of_int \<lfloor>sqrt (real n1 / real k)\<rfloor>\<rfloor>
               \<le> \<lfloor>1.8 * real_of_int \<lfloor>sqrt (real n2 / real k)\<rfloor>\<rfloor>"
      using din by (intro scaled_floor_mono) simp_all
    then have e: "real_of_int \<lceil>real_of_int \<lfloor>1.8 * real_of_int \<lfloor>sqrt (real n1 / real k)\<rfloor>\<rfloor> / 2\<rceil>
               \<le> real_of_int \<lceil>real_of_int \<lfloor>1.8 * real_of_int \<lfloor>sqrt (real n2 / real k)\<rfloor>\<rfloor> / 2\<rceil>"
      by (simp add: ceiling_mono divide_right_mono)
    show ?thesis
      using d power_law_antimono [OF r e k0] 2
      by (simp add: yoked_1d_calculateParams_def Math_defs Let_def)
  next
    case 3
    have r: "0 < p / 0.011" "p / 0.011 \<le> 1"
      using p 3 by simp_all
    have d: "\<lfloor>3.2 * real_of_int \<lfloor>sqrt (real n1 / real k)\<rfloor>\<rfloor>
               \<le> \<lfloor>3.2 * real_of_int \<lfloor>sqrt (real n2 / real k)\<rfloor>\<rfloor>"
      using din by (intro scaled_floor_mono) simp_all
    then have e: "real_of_int \<lceil>real_of_int \<lfloor>3.2 * real_of_int \<lfloor>sqrt (real n1 / real k)\<rfloor>\<rfloor> / 2\<rceil>
               \<le> real_of_int \<lceil>real_of_int \<lfloor>3.2 * real_of_int \<lfloor>sqrt (real n2 / real k)\<rfloor>\<rfloor> / 2\<rceil>"
      by (simp add: ceiling_mono divide_right_mono)
    show ?thesis
      using d power_law_antimono [OF r e k0] 3
      by (simp add: yoked_2d_calculateParams_def Math_defs Let_def)
  next
    case 4
    have r: "0 < p / 0.0036" "p / 0.0036 \<le> 1"
      using p 4 by simp_all
    have e: "real_of_int \<lceil>real_of_int \<lfloor>sqrt (real n1 / real k)\<rfloor> / 2\<rceil>
               \<le> real_of_int \<lceil>real_of_int \<lfloor>sqrt (real n2 / real k)\<rfloor> / 2\<rceil>"
      using din by (simp add: ceiling_mono divide_right_mono)
    show ?thesis
      using din power_law_antimono [OF r e k0] 4
      by (simp add: color_calculateParams_def Math_defs Let_def)
  next
    case 5
    then show ?thesis
      using dist by simp
  next
    case 6
    then show ?thesis
      using dist by simp
  qed
qed

theorem distance_codes_monotone_in_n_witness:
  "codeLibrary ''color''
     = Some \<lparr>code_name = ''Color Code'', threshold = 0.0036,
             calculateParams = color_calculateParams\<rparr>
   \<and> (0::real) < 0.001 \<and> (0.001::real) < 0.0036 \<and> (1::nat) \<le> 1 \<and> (1::nat) \<le> 9
   \<and> (9::nat) < 16
   \<and> (\<exists>d1 d2.
         res_d (color_calculateParams
           \<lparr>params_p = 0.001, params_n = 9, params_k = 1, params_epsilon_L = 0.000001\<rparr>)
           = Some d1
       \<and> res_d (color_calculateParams
           \<lparr>params_p = 0.001, params_n = 16, params_k = 1, params_epsilon_L = 0.000001\<rparr>)
           = Some d2
       \<and> d1 \<le> d2
       \<and> res_epsilon_L (color_calculateParams
           \<lparr>params_p = 0.001, params_n = 16, params_k = 1, params_epsilon_L = 0.000001\<rparr>)
         \<le> res_epsilon_L (color_calculateParams
           \<lparr>params_p = 0.001, params_n = 9, params_k = 1, params_epsilon_L = 0.000001\<rparr>))"
  using distance_codes_monotone_in_n
    [of "''color''"
        "\<lparr>code_name = ''Color Code'', threshold = 0.0036,
          calculateParams = color_calculateParams\<rparr>"
        "0.001" 1 9 16 "0.000001"]
  by (simp add: codeLibrary_def)

section \<open>The sampled error rates\<close>

lemma registered_threshold:
  assumes "codeLibrary cid = Some c"
  shows "0.0036 \<le> threshold c" and "threshold c \<le> 0.011"
  using assms by (cases rule: registered_cases; simp)+

lemma sample_p_powr:
  "sample_p thr i =
     10 powr (log 10 0.000001 + (log 10 (thr * 0.99) - log 10 0.000001) * (real i / 49))"
  by (simp add: sample_p_def Math_pow_pos Math_log10_def)

lemma sample_p_strict_mono:
  assumes thr: "0.000001 < thr * 0.99" and ij: "i < j"
  shows "sample_p thr i < sample_p thr j"
proof -
  have "log 10 0.000001 < log 10 (thr * 0.99)"
    using thr by simp
  then have pos: "0 < log 10 (thr * 0.99) - log 10 0.000001"
    by simp
  have "real i / 49 < real j / 49"
    using ij by simp
  then have "(log 10 (thr * 0.99) - log 10 0.000001) * (real i / 49)
               < (log 10 (thr * 0.99) - log 10 0.000001) * (real j / 49)"
    using pos by (rule mult_strict_left_mono)
  then show ?thesis
    by (simp add: sample_p_powr)
qed

lemma sample_p_upper:
  assumes thr: "0.000001 < thr * 0.99" and i: "i \<le> 49"
  shows "sample_p thr i \<le> thr * 0.99"
proof -
  have le: "log 10 0.000001 \<le> log 10 (thr * 0.99)"
    using thr by simp
  have "real i / 49 \<le> 1"
    using i by simp
  then have "(log 10 (thr * 0.99) - log 10 0.000001) * (real i / 49)
               \<le> (log 10 (thr * 0.99) - log 10 0.000001) * 1"
    using le by (intro mult_left_mono) simp_all
  then have "sample_p thr i \<le> 10 powr (log 10 (thr * 0.99))"
    by (simp add: sample_p_powr)
  also have "\<dots> = thr * 0.99"
    using thr by simp
  finally show ?thesis .
qed

lemma sample_p_lower:
  assumes thr: "0.000001 < thr * 0.99"
  shows "0.000001 \<le> sample_p thr i"
proof -
  define L where "L = log 10 0.000001"
  define x where "x = (log 10 (thr * 0.99) - log 10 0.000001) * (real i / 49)"
  have le: "log 10 0.000001 \<le> log 10 (thr * 0.99)"
    using thr by simp
  have "0 \<le> x"
    unfolding x_def using le by (intro mult_nonneg_nonneg) simp_all
  then have "L \<le> L + x"
    by simp
  then have "10 powr L \<le> 10 powr (L + x)"
    by (rule powr_mono) simp
  moreover have "10 powr L = 0.000001"
    unfolding L_def by simp
  moreover have "10 powr (L + x) = sample_p thr i"
    unfolding L_def x_def by (simp only: sample_p_powr)
  ultimately show ?thesis
    by simp
qed

lemma generatePlotData_loop_pValues:
  assumes "pValues acc = map (sample_p (threshold c)) [0..<i]" and "i \<le> 50"
    and thr: "0.000001 < threshold c * 0.99" "0 < threshold c"
  shows "\<exists>m. i \<le> m \<and> m \<le> 50 \<and> (i < 50 \<longrightarrow> i < m)
           \<and> pValues (generatePlotData_loop code c e k i acc)
               = map (sample_p (threshold c)) [0..<m]
           \<and> (m < 50 \<longrightarrow>
                (\<exists>r. bestResult (plotSearch_loop c (sample_p (threshold c) (m - 1)) k e 0
                        (search_init 10000000000)) = Some r
                     \<and> 1000000000 < res_n r))"
  using assms(1,2)
proof (induction "50 - i" arbitrary: i acc)
  case 0
  then have "i = 50"
    by simp
  then have "generatePlotData_loop code c e k i acc = acc"
    by (subst generatePlotData_loop.simps) simp
  then show ?case
    using 0 \<open>i = 50\<close> by (intro exI [of _ 50]) simp
next
  case (Suc d)
  then have i: "i < 50"
    by simp
  define p where "p = sample_p (threshold c) i"
  define acc1 where "acc1 = acc\<lparr>pValues := pValues acc @ [p]\<rparr>"
  have acc1: "pValues acc1 = map (sample_p (threshold c)) [0..<Suc i]"
    using Suc.prems(1) by (simp add: acc1_def p_def)
  define st where "st = plotSearch_loop c p k e 0 (search_init 10000000000)"
  define physicalQubits where
    "physicalQubits = (case bestResult st of Some r \<Rightarrow> res_n r | None \<Rightarrow> cur_n st)"
  define logicalQubits where
    "logicalQubits =
       (if code = ''hypergraph'' then Math_max 1 (Math_floor (0.04 * physicalQubits))
        else if code = ''lifted''
        then Math_max 1 (Math_floor (0.38 * Math_pow physicalQubits 0.85))
        else 1)"
  define acc2 where
    "acc2 = acc1\<lparr>nValues := nValues acc1 @ [physicalQubits],
                  kValues := kValues acc1 @ [logicalQubits]\<rparr>"
  have unfold: "generatePlotData_loop code c e k i acc =
      (if p \<ge> threshold c then acc
       else if (case bestResult st of Some r \<Rightarrow> res_n r > 1000000000 | None \<Rightarrow> False)
       then acc1
       else generatePlotData_loop code c e k (i + 1) acc2)"
    unfolding acc2_def logicalQubits_def physicalQubits_def st_def acc1_def p_def
    by (subst generatePlotData_loop.simps) (simp only: i if_True Let_def)
  have "p \<le> threshold c * 0.99"
    unfolding p_def using thr(1) i by (intro sample_p_upper) simp_all
  then have below: "\<not> p \<ge> threshold c"
    using thr(2) by simp
  show ?case
  proof (cases "case bestResult st of Some r \<Rightarrow> res_n r > 1000000000 | None \<Rightarrow> False")
    case True
    then obtain r where r: "bestResult st = Some r" "1000000000 < res_n r"
      by (cases "bestResult st") simp_all
    have "generatePlotData_loop code c e k i acc = acc1"
      using True below by (simp add: unfold)
    then show ?thesis
      using acc1 i r by (intro exI [of _ "Suc i"]) (simp add: st_def p_def)
  next
    case False
    then have eq: "generatePlotData_loop code c e k i acc
        = generatePlotData_loop code c e k (i + 1) acc2"
      using below by (simp add: unfold)
    have "pValues acc2 = map (sample_p (threshold c)) [0..<i + 1]"
      using acc1 by (simp add: acc2_def)
    moreover have "d = 50 - (i + 1)" and "i + 1 \<le> 50"
      using Suc.hyps(2) i by simp_all
    ultimately obtain m where m: "i + 1 \<le> m" "m \<le> 50"
      "pValues (generatePlotData_loop code c e k (i + 1) acc2)
         = map (sample_p (threshold c)) [0..<m]"
      "m < 50 \<longrightarrow>
         (\<exists>r. bestResult (plotSearch_loop c (sample_p (threshold c) (m - 1)) k e 0
                 (search_init 10000000000)) = Some r
              \<and> 1000000000 < res_n r)"
      using Suc.hyps(1) [of "i + 1" acc2] by blast
    show ?thesis
      unfolding eq using m by (intro exI [of _ m]) simp
  qed
qed

lemma sampled_strictly_increasing:
  assumes "0.000001 < thr * 0.99"
  shows "sorted_wrt (<) (map (sample_p thr) [0..<m])"
proof -
  have "sorted_wrt (\<lambda>i j. sample_p thr i < sample_p thr j) [0..<m]"
    using sorted_wrt_upt [of 0 m]
    by (rule sorted_wrt_mono_rel [rotated]) (simp add: sample_p_strict_mono [OF assms])
  then show ?thesis
    by (simp add: sorted_wrt_map)
qed

lemma sample_p_0: "sample_p thr 0 = 0.000001"
  by (simp add: sample_p_powr)

lemma last_samples:
  "0 < m \<Longrightarrow> last (map (sample_p thr) [0..<m]) = sample_p thr (m - 1)"
  by (cases m) (simp_all add: last_map)

text \<open>
  C5: for every registered code, every target and every \<open>k\<close>, the curve sampler returns
  the first \<open>m\<close> of the fifty log-spaced samples from \<open>10\<^sup>-\<^sup>6\<close> to \<open>0.99\<close> times the threshold,
  with \<open>1 \<le> m \<le> 50\<close>: the sequence starts at \<open>10\<^sup>-\<^sup>6\<close>, is strictly increasing, and every
  element is strictly below the threshold (at most \<open>0.99\<close> times the threshold). It is cut
  short (\<open>m < 50\<close>) only after a sample whose best result needs more than \<open>10\<^sup>9\<close> qubits.
\<close>

theorem samples_increasing_below_threshold:
  assumes "codeLibrary cid = Some c"
  shows "\<exists>pd m. generatePlotData cid epsilon_L k = Some pd
           \<and> 1 \<le> m \<and> m \<le> 50
           \<and> pValues pd
               = map (\<lambda>i. 10 powr (log 10 0.000001
                              + (log 10 (threshold c * 0.99) - log 10 0.000001) * (real i / 49)))
                   [0..<m]
           \<and> hd (pValues pd) = 0.000001
           \<and> sorted_wrt (<) (pValues pd)
           \<and> (\<forall>p \<in> set (pValues pd).
                 0.000001 \<le> p \<and> p \<le> threshold c * 0.99 \<and> p < threshold c)
           \<and> (m < 50 \<longrightarrow>
                (\<exists>r. bestResult (plotSearch_loop c (last (pValues pd)) k epsilon_L 0
                        (search_init 10000000000)) = Some r
                     \<and> 1000000000 < res_n r))"
proof -
  have t: "0.0036 \<le> threshold c"
    using assms by (rule registered_threshold(1))
  then have thr: "0.000001 < threshold c * 0.99" and pos: "0 < threshold c"
    by simp_all
  define acc where
    "acc = \<lparr>pValues = [], nValues = [], kValues = [], plot_threshold = threshold c\<rparr>"
  define pd where "pd = generatePlotData_loop cid c epsilon_L k 0 acc"
  have gen: "generatePlotData cid epsilon_L k = Some pd"
    using assms by (simp add: generatePlotData_def pd_def acc_def)
  have "pValues acc = map (sample_p (threshold c)) [0..<0]"
    by (simp add: acc_def)
  then obtain m where m: "0 < m" "m \<le> 50"
    and pv: "pValues pd = map (sample_p (threshold c)) [0..<m]"
    and cut: "m < 50 \<longrightarrow>
                (\<exists>r. bestResult (plotSearch_loop c (sample_p (threshold c) (m - 1)) k epsilon_L 0
                        (search_init 10000000000)) = Some r
                     \<and> 1000000000 < res_n r)"
    using generatePlotData_loop_pValues [of acc c 0 cid epsilon_L k, OF _ _ thr pos]
    unfolding pd_def by auto
  have formula: "pValues pd
      = map (\<lambda>i. 10 powr (log 10 0.000001
                     + (log 10 (threshold c * 0.99) - log 10 0.000001) * (real i / 49)))
          [0..<m]"
    unfolding pv by (rule map_cong [OF refl]) (rule sample_p_powr)
  have "[0..<m] = 0 # [1..<m]"
    using m(1) by (simp add: upt_conv_Cons)
  then have first: "hd (pValues pd) = 0.000001"
    unfolding pv by (simp add: sample_p_0)
  have incr: "sorted_wrt (<) (pValues pd)"
    unfolding pv using thr by (rule sampled_strictly_increasing)
  have bounds: "\<forall>p \<in> set (pValues pd).
      0.000001 \<le> p \<and> p \<le> threshold c * 0.99 \<and> p < threshold c"
  proof
    fix p
    assume "p \<in> set (pValues pd)"
    then obtain i where i: "i < m" and p: "p = sample_p (threshold c) i"
      unfolding pv by auto
    have "i \<le> 49"
      using i m(2) by simp
    then have up: "p \<le> threshold c * 0.99"
      unfolding p using thr by (intro sample_p_upper)
    have lo: "0.000001 \<le> p"
      unfolding p using thr by (rule sample_p_lower)
    from up pos have "p < threshold c"
      by simp
    with lo up show "0.000001 \<le> p \<and> p \<le> threshold c * 0.99 \<and> p < threshold c"
      by simp
  qed
  have "last (pValues pd) = sample_p (threshold c) (m - 1)"
    unfolding pv using m(1) by (rule last_samples)
  with cut have cut': "m < 50 \<longrightarrow>
      (\<exists>r. bestResult (plotSearch_loop c (last (pValues pd)) k epsilon_L 0
              (search_init 10000000000)) = Some r
           \<and> 1000000000 < res_n r)"
    by simp
  from m have "1 \<le> m"
    by simp
  with gen m(2) formula first incr bounds cut' show ?thesis
    by blast
qed

theorem samples_increasing_below_threshold_witness:
  "\<exists>pd. generatePlotData ''hypergraph'' 0.000001 1 = Some pd
      \<and> pValues pd \<noteq> []
      \<and> hd (pValues pd) = 0.000001
      \<and> sorted_wrt (<) (pValues pd)
      \<and> list_all (\<lambda>p. p < 0.006) (pValues pd)"
proof -
  define c where "c = \<lparr>code_name = ''Hypergraph Product Code'', threshold = 0.006,
                        calculateParams = hypergraph_calculateParams\<rparr>"
  have reg: "codeLibrary ''hypergraph'' = Some c"
    by (simp add: codeLibrary_def c_def)
  from samples_increasing_below_threshold [OF reg, of "0.000001" 1]
  obtain pd m where "generatePlotData ''hypergraph'' 0.000001 1 = Some pd"
    and "1 \<le> m"
    and "pValues pd
           = map (\<lambda>i. 10 powr (log 10 0.000001
                          + (log 10 (threshold c * 0.99) - log 10 0.000001) * (real i / 49)))
               [0..<m]"
    and "hd (pValues pd) = 0.000001"
    and "sorted_wrt (<) (pValues pd)"
    and "\<forall>p \<in> set (pValues pd).
           0.000001 \<le> p \<and> p \<le> threshold c * 0.99 \<and> p < threshold c"
    by blast
  moreover from this have "pValues pd \<noteq> []"
    by (cases m) simp_all
  moreover have "threshold c = 0.006"
    by (simp add: c_def)
  ultimately show ?thesis
    by (auto simp: list_all_iff)
qed

section \<open>The two searches\<close>

text \<open>
  The first body of the curve sampler's search for the hypergraph product code at
  \<open>p = 0.99 * 0.006\<close> with target \<open>10\<^sup>-\<^sup>6\<close>: the midpoint is \<open>5000000005\<close> and its logical error
  rate is still above the target.
\<close>

lemma power_099_470: "0.000001 < 0.07 * (0.99::real) ^ 470"
proof -
  have a: "(0.9::real) \<le> 0.99 ^ 10"
    by (simp add: power_divide)
  have b: "0.000001 < 0.07 * (0.9::real) ^ 47"
    by (simp add: power_divide)
  have "((0.99::real) ^ 10) ^ 47 = 0.99 ^ (10 * 47)"
    by (rule power_mult [symmetric])
  then have c: "((0.99::real) ^ 10) ^ 47 = 0.99 ^ 470"
    by (simp only: arith_simps)
  have "(0.9::real) ^ 47 \<le> (0.99 ^ 10) ^ 47"
    by (rule power_mono [OF a]) simp
  then have "(0.9::real) ^ 47 \<le> 0.99 ^ 470"
    by (simp only: c)
  then have "0.07 * (0.9::real) ^ 47 \<le> 0.07 * 0.99 ^ 470"
    by (rule mult_left_mono) simp
  with b show ?thesis
    by (rule less_le_trans)
qed

lemma hypergraph_first_midpoint:
  "0.000001 < res_epsilon_L (hypergraph_calculateParams
      \<lparr>params_p = 0.00594, params_n = 5000000005, params_k = 1, params_epsilon_L = 0.000001\<rparr>)"
proof -
  define e :: real where "e = 0.47 * 5000000005 powr 0.27"
  have ten: "(10000000000::real) = 10 powr 10"
    by simp
  have "(10 powr 10) powr 0.27 = (10::real) powr (10 * 0.27)"
    by (rule powr_powr)
  then have "(10000000000::real) powr 0.27 = 10 powr 2.7"
    by (simp only: ten) simp
  moreover have "(10::real) powr 2.7 \<le> 10 powr 3"
    by (rule powr_mono) simp_all
  moreover have "(10::real) powr 3 = 1000"
    by simp
  moreover have "(5000000005::real) powr 0.27 \<le> 10000000000 powr 0.27"
    by (rule powr_mono2) simp_all
  ultimately have "(5000000005::real) powr 0.27 \<le> 1000"
    by simp
  then have "e \<le> 470"
    by (simp add: e_def)
  then have mono: "(0.99::real) powr 470 \<le> 0.99 powr e"
    by (rule powr_mono') simp_all
  have pw: "(0.99::real) powr 470 = 0.99 ^ 470"
    using powr_realpow [of "0.99::real" 470] by simp
  have "(0.99::real) ^ 470 \<le> 0.99 powr e"
    using mono by (simp only: pw)
  then have "0.07 * (0.99::real) ^ 470 \<le> 0.07 * 0.99 powr e"
    by (rule mult_left_mono) simp
  with power_099_470 have "0.000001 < 0.07 * (0.99::real) powr e"
    by (rule less_le_trans)
  then show ?thesis
    by (simp add: hypergraph_calculateParams_def Math_pow_pos Let_def e_def)
qed

lemma plotSearch_hypergraph_first_body:
  fixes H :: code_entry and R :: result
  defines "H \<equiv> \<lparr>code_name = ''Hypergraph Product Code'', threshold = 0.006,
                   calculateParams = hypergraph_calculateParams\<rparr>"
    and "R \<equiv> hypergraph_calculateParams
           \<lparr>params_p = 0.00594, params_n = 5000000005, params_k = 1,
            params_epsilon_L = 0.000001\<rparr>"
  shows "nMin (bisect_body H 0.00594 1 0.000001 (search_init 10000000000)) = 5000000005"
    and "bestResult (bisect_body H 0.00594 1 0.000001 (search_init 10000000000)) = Some R"
    and "evaluated (bisect_body H 0.00594 1 0.000001 (search_init 10000000000)) = [R]"
  using hypergraph_first_midpoint
  by (simp_all add: bisect_body_def search_init_def Math_floor_def Let_def H_def R_def)

lemma plotSearch_hypergraph_stops:
  fixes H :: code_entry
  defines "H \<equiv> \<lparr>code_name = ''Hypergraph Product Code'', threshold = 0.006,
                   calculateParams = hypergraph_calculateParams\<rparr>"
  shows "plotSearch_loop H 0.00594 1 0.000001 0 (search_init 10000000000)
           = bisect_body H 0.00594 1 0.000001 (search_init 10000000000)"
  using plotSearch_hypergraph_first_body(1)
  by (subst plotSearch_loop.simps) (simp add: Let_def H_def)

text \<open>
  C4, as stated, fails for the curve sampler: its search for the hypergraph product code
  at \<open>p = 0.99 * 0.006\<close>, \<open>k = 1\<close> and target \<open>10\<^sup>-\<^sup>6\<close> executes one loop body, not thirty.
\<close>

theorem plotSearch_one_body_counterexample:
  "map_option
     (\<lambda>c. length (evaluated (plotSearch_loop c 0.00594 1 0.000001 0 (search_init 10000000000))))
     (codeLibrary ''hypergraph'') = Some 1"
proof -
  have reg: "codeLibrary ''hypergraph''
      = Some \<lparr>code_name = ''Hypergraph Product Code'', threshold = 0.006,
               calculateParams = hypergraph_calculateParams\<rparr>"
    by (simp add: codeLibrary_def)
  have "length (evaluated (plotSearch_loop
          \<lparr>code_name = ''Hypergraph Product Code'', threshold = 0.006,
            calculateParams = hypergraph_calculateParams\<rparr>
          0.00594 1 0.000001 0 (search_init 10000000000))) = 1"
    unfolding plotSearch_hypergraph_stops plotSearch_hypergraph_first_body(3) by simp
  then show ?thesis
    unfolding reg by simp
qed

section \<open>The searches over JavaScript numbers\<close>

lemma js_less_trans: "js_less a b \<Longrightarrow> js_less b c \<Longrightarrow> js_less a c"
  by (cases a; cases b; cases c) simp_all

lemma js_less_irrefl: "\<not> js_less a a"
  by (cases a) simp_all

lemma not_below_PInf: "\<not> js_less a PInf \<Longrightarrow> \<not> js_less a b"
  by (cases a; cases b) simp_all

lemma bisect_body_js_fields:
  "js_evaluated (bisect_body_js A c p k t st)
     = js_evaluated st @ [evaluate_at c p k t (js_midpoint A (js_nMin st, js_nMax st))]"
  "(js_nMin (bisect_body_js A c p k t st), js_nMax (bisect_body_js A c p k t st))
     = (if js_less t
             (jr_epsilon_L (evaluate_at c p k t (js_midpoint A (js_nMin st, js_nMax st))))
        then (js_midpoint A (js_nMin st, js_nMax st), js_nMax st)
        else (js_nMin st, js_midpoint A (js_nMin st, js_nMax st)))"
  "js_bestResult (bisect_body_js A c p k t st)
     = (if js_less
             (js_log_distance A t (evaluate_at c p k t (js_midpoint A (js_nMin st, js_nMax st))))
             (js_minDiff st)
        then Some (evaluate_at c p k t (js_midpoint A (js_nMin st, js_nMax st)))
        else js_bestResult st)"
  "js_minDiff (bisect_body_js A c p k t st)
     = (if js_less
             (js_log_distance A t (evaluate_at c p k t (js_midpoint A (js_nMin st, js_nMax st))))
             (js_minDiff st)
        then js_log_distance A t (evaluate_at c p k t (js_midpoint A (js_nMin st, js_nMax st)))
        else js_minDiff st)"
  by (simp_all add: bisect_body_js_def evaluate_at_def js_midpoint_def js_log_distance_def
      Let_def)

lemma follows_bisection_init:
  "follows_bisection A c p k t (Fin 10, hi) 0 (search_init_js hi)"
  by (simp add: follows_bisection_def search_init_js_def)

lemma follows_bisection_step:
  assumes "follows_bisection A c p k t b m st"
  shows "follows_bisection A c p k t b (Suc m) (bisect_body_js A c p k t st)"
proof -
  have b: "(js_nMin st, js_nMax st) = bisection_bracket A c p k t b m"
    and e: "js_evaluated st = map (bracket_result A c p k t b) [0..<m]"
    using assms by (simp_all add: follows_bisection_def)
  have "evaluate_at c p k t (js_midpoint A (js_nMin st, js_nMax st))
          = bracket_result A c p k t b m"
    by (simp add: bracket_result_def b)
  moreover have "(js_nMin (bisect_body_js A c p k t st), js_nMax (bisect_body_js A c p k t st))
          = bisection_bracket A c p k t b (Suc m)"
    unfolding bisect_body_js_fields(2) b [symmetric]
    by (simp add: Let_def b [symmetric])
  ultimately show ?thesis
    unfolding follows_bisection_def by (simp add: bisect_body_js_fields(1) e)
qed

lemma follows_bisection_iterate:
  "follows_bisection A c p k t (Fin 10, hi) m
     ((bisect_body_js A c p k t ^^ m) (search_init_js hi))"
  by (induction m) (simp_all add: follows_bisection_init follows_bisection_step)

lemma keeps_best_init:
  "keeps_best A t (search_init_js hi)
   \<and> js_minDiff (search_init_js hi)
       = (case js_bestResult (search_init_js hi) of None \<Rightarrow> PInf
          | Some r \<Rightarrow> js_log_distance A t r)"
  by (simp add: keeps_best_def search_init_js_def)

lemma keeps_best_step:
  assumes inv: "keeps_best A t st
      \<and> js_minDiff st = (case js_bestResult st of None \<Rightarrow> PInf
                            | Some r \<Rightarrow> js_log_distance A t r)"
  shows "keeps_best A t (bisect_body_js A c p k t st)
      \<and> js_minDiff (bisect_body_js A c p k t st)
          = (case js_bestResult (bisect_body_js A c p k t st) of None \<Rightarrow> PInf
             | Some r \<Rightarrow> js_log_distance A t r)"
proof -
  define x where "x = evaluate_at c p k t (js_midpoint A (js_nMin st, js_nMax st))"
  define d where "d = js_log_distance A t x"
  note f = bisect_body_js_fields [of A c p k t st, folded x_def, folded d_def]
  show ?thesis
  proof (cases "js_bestResult st")
    case None
    then have m: "js_minDiff st = PInf"
      and old: "list_all (\<lambda>r. \<not> js_less (js_log_distance A t r) PInf) (js_evaluated st)"
      using inv by (simp_all add: keeps_best_def)
    show ?thesis
    proof (cases "js_less d PInf")
      case True
      have "list_all (\<lambda>r'. \<not> js_less (js_log_distance A t r') d) (js_evaluated st)"
        using old by (auto simp add: list_all_iff not_below_PInf)
      then show ?thesis
        using True m by (simp add: keeps_best_def f d_def [symmetric] js_less_irrefl)
    next
      case False
      then show ?thesis
        using None m old by (simp add: keeps_best_def f d_def [symmetric])
    qed
  next
    case (Some b)
    then have m: "js_minDiff st = js_log_distance A t b"
      and old: "b \<in> set (js_evaluated st)" "js_less (js_log_distance A t b) PInf"
        "list_all (\<lambda>r'. \<not> js_less (js_log_distance A t r') (js_log_distance A t b))
           (js_evaluated st)"
      using inv by (simp_all add: keeps_best_def)
    show ?thesis
    proof (cases "js_less d (js_log_distance A t b)")
      case True
      have "list_all (\<lambda>r'. \<not> js_less (js_log_distance A t r') d) (js_evaluated st)"
        using old(3) True by (auto simp add: list_all_iff dest: js_less_trans)
      moreover have "js_less d PInf"
        using True old(2) by (rule js_less_trans)
      ultimately show ?thesis
        using True m by (simp add: keeps_best_def f d_def [symmetric] js_less_irrefl)
    next
      case False
      then show ?thesis
        using Some m old by (simp add: keeps_best_def f d_def [symmetric])
    qed
  qed
qed

lemma keeps_best_iterate:
  "keeps_best A t ((bisect_body_js A c p k t ^^ m) (search_init_js hi))
   \<and> js_minDiff ((bisect_body_js A c p k t ^^ m) (search_init_js hi))
       = (case js_bestResult ((bisect_body_js A c p k t ^^ m) (search_init_js hi)) of
            None \<Rightarrow> PInf | Some r \<Rightarrow> js_log_distance A t r)"
proof (induction m)
  case 0
  show ?case
    using keeps_best_init [of A t hi] by simp
next
  case (Suc m)
  show ?case
    using keeps_best_step [OF Suc.IH] by simp
qed

lemma findRequiredN_loop_js_iterate:
  assumes "j \<le> 20"
  shows "findRequiredN_loop_js A c p k t j st = (bisect_body_js A c p k t ^^ (20 - j)) st"
  using assms
proof (induction "20 - j" arbitrary: j st)
  case 0
  then show ?case
    by (subst findRequiredN_loop_js.simps) simp
next
  case (Suc d)
  then have j: "j < 20" and d: "d = 20 - (j + 1)" and "j + 1 \<le> 20"
    by simp_all
  then have "findRequiredN_loop_js A c p k t (j + 1) (bisect_body_js A c p k t st)
      = (bisect_body_js A c p k t ^^ (20 - (j + 1))) (bisect_body_js A c p k t st)"
    by (intro Suc.hyps(1))
  moreover have "20 - j = Suc (20 - (j + 1))"
    using j by simp
  ultimately show ?case
    using j by (subst findRequiredN_loop_js.simps) (simp add: funpow_swap1)
qed

lemma plotSearch_loop_js_iterate:
  assumes "j < 30"
  shows "\<exists>m. 1 \<le> m \<and> j + m \<le> 30
           \<and> plotSearch_loop_js A c p k t j st = (bisect_body_js A c p k t ^^ m) st
           \<and> list_all (\<lambda>i. \<not> js_less (Fin 1000000000)
                               (js_nMin ((bisect_body_js A c p k t ^^ i) st))) [1..<m]
           \<and> (j + m < 30
                \<longrightarrow> js_less (Fin 1000000000) (js_nMin ((bisect_body_js A c p k t ^^ m) st)))"
  using assms
proof (induction "30 - j" arbitrary: j st)
  case 0
  then show ?case
    by simp
next
  case (Suc d)
  define st' where "st' = bisect_body_js A c p k t st"
  have unfold: "plotSearch_loop_js A c p k t j st
      = (if js_less (Fin 1000000000) (js_nMin st') then st'
         else plotSearch_loop_js A c p k t (j + 1) st')"
    using Suc.prems by (subst plotSearch_loop_js.simps) (simp add: Let_def st'_def)
  show ?case
  proof (cases "js_less (Fin 1000000000) (js_nMin st')")
    case True
    then show ?thesis
      using unfold Suc.prems by (intro exI [of _ 1]) (simp add: st'_def)
  next
    case False
    show ?thesis
    proof (cases "j + 1 < 30")
      case last: False
      then have "plotSearch_loop_js A c p k t (j + 1) st' = st'"
        by (subst plotSearch_loop_js.simps) simp
      then show ?thesis
        using unfold False last Suc.prems by (intro exI [of _ 1]) (simp add: st'_def)
    next
      case more: True
      have "d = 30 - (j + 1)"
        using Suc.hyps(2) by simp
      from Suc.hyps(1) [OF this more, of st']
      obtain m where m: "1 \<le> m" "j + 1 + m \<le> 30"
        "plotSearch_loop_js A c p k t (j + 1) st' = (bisect_body_js A c p k t ^^ m) st'"
        "list_all (\<lambda>i. \<not> js_less (Fin 1000000000)
                          (js_nMin ((bisect_body_js A c p k t ^^ i) st'))) [1..<m]"
        "j + 1 + m < 30
           \<longrightarrow> js_less (Fin 1000000000) (js_nMin ((bisect_body_js A c p k t ^^ m) st'))"
        by blast
      have shift: "(bisect_body_js A c p k t ^^ i) st'
          = (bisect_body_js A c p k t ^^ Suc i) st" for i
        by (simp add: st'_def funpow_swap1)
      have "list_all (\<lambda>i. \<not> js_less (Fin 1000000000)
                (js_nMin ((bisect_body_js A c p k t ^^ i) st))) [1..<Suc m]"
        unfolding list_all_iff
      proof
        fix i
        assume "i \<in> set [1..<Suc m]"
        then have i: "1 \<le> i" "i < Suc m"
          by auto
        show "\<not> js_less (Fin 1000000000) (js_nMin ((bisect_body_js A c p k t ^^ i) st))"
        proof (cases "i = 1")
          case True
          then show ?thesis
            using False by (simp add: st'_def)
        next
          case False
          then obtain i' where i': "i = Suc i'" "1 \<le> i'" "i' < m"
            using i by (cases i) auto
          then have "\<not> js_less (Fin 1000000000)
              (js_nMin ((bisect_body_js A c p k t ^^ i') st'))"
            using m(4) by (simp add: list_all_iff)
          then show ?thesis
            by (simp add: i'(1) shift del: funpow.simps)
        qed
      qed
      then show ?thesis
        using m unfold False
        by (intro exI [of _ "Suc m"]) (simp add: shift del: funpow.simps)
    qed
  qed
qed

lemma findRequiredN_js_below_threshold:
  assumes "codeLibrary_js A cid = Some c" and "\<not> js_ge p (js_threshold c)"
  shows "findRequiredN_js A cid p t k
           = js_bestResult (findRequiredN_loop_js A c p k t 0 (search_init_js (Fin 1000000)))"
  using assms by (simp add: findRequiredN_js_def)

lemma findRequiredN_loop_js_follows:
  "follows_bisection A c p k t (Fin 10, Fin 1000000) 20
     (findRequiredN_loop_js A c p k t 0 (search_init_js (Fin 1000000)))"
  using follows_bisection_iterate [where m = 20 and hi = "Fin 1000000"]
  by (simp add: findRequiredN_loop_js_iterate)

lemma findRequiredN_loop_js_keeps_best:
  "keeps_best A t (findRequiredN_loop_js A c p k t 0 (search_init_js (Fin 1000000)))"
  using keeps_best_iterate [where m = 20 and hi = "Fin 1000000"]
  by (simp add: findRequiredN_loop_js_iterate)

lemma iterate_js_nMin:
  "js_nMin ((bisect_body_js A c p k t ^^ i) (search_init_js hi))
     = fst (bisection_bracket A c p k t (Fin 10, hi) i)"
proof -
  have "(js_nMin ((bisect_body_js A c p k t ^^ i) (search_init_js hi)),
         js_nMax ((bisect_body_js A c p k t ^^ i) (search_init_js hi)))
      = bisection_bracket A c p k t (Fin 10, hi) i"
    using follows_bisection_iterate [where m = i and hi = hi]
    by (simp add: follows_bisection_def)
  then have "fst (js_nMin ((bisect_body_js A c p k t ^^ i) (search_init_js hi)),
         js_nMax ((bisect_body_js A c p k t ^^ i) (search_init_js hi)))
      = fst (bisection_bracket A c p k t (Fin 10, hi) i)"
    by (rule arg_cong)
  then show ?thesis
    by simp
qed

lemma plotSearch_loop_js_follows:
  "\<exists>m. 1 \<le> m \<and> m \<le> 30
       \<and> follows_bisection A c p k t (Fin 10, Fin 10000000000) m
           (plotSearch_loop_js A c p k t 0 (search_init_js (Fin 10000000000)))
       \<and> keeps_best A t (plotSearch_loop_js A c p k t 0 (search_init_js (Fin 10000000000)))
       \<and> list_all (\<lambda>i. \<not> js_less (Fin 1000000000)
                 (fst (bisection_bracket A c p k t (Fin 10, Fin 10000000000) i))) [1..<m]
       \<and> (m < 30 \<longrightarrow> js_less (Fin 1000000000)
                 (fst (bisection_bracket A c p k t (Fin 10, Fin 10000000000) m)))"
proof -
  obtain m where m: "1 \<le> m" "m \<le> 30"
    "plotSearch_loop_js A c p k t 0 (search_init_js (Fin 10000000000))
       = (bisect_body_js A c p k t ^^ m) (search_init_js (Fin 10000000000))"
    "list_all (\<lambda>i. \<not> js_less (Fin 1000000000)
        (js_nMin ((bisect_body_js A c p k t ^^ i) (search_init_js (Fin 10000000000))))) [1..<m]"
    "m < 30 \<longrightarrow> js_less (Fin 1000000000)
        (js_nMin ((bisect_body_js A c p k t ^^ m) (search_init_js (Fin 10000000000))))"
    using plotSearch_loop_js_iterate [of 0 A c p k t "search_init_js (Fin 10000000000)"]
    by auto
  have "follows_bisection A c p k t (Fin 10, Fin 10000000000) m
           (plotSearch_loop_js A c p k t 0 (search_init_js (Fin 10000000000)))"
    unfolding m(3) by (rule follows_bisection_iterate)
  moreover have "keeps_best A t
      (plotSearch_loop_js A c p k t 0 (search_init_js (Fin 10000000000)))"
    unfolding m(3) using keeps_best_iterate [where m = m and hi = "Fin 10000000000"] by simp
  ultimately show ?thesis
    using m(1,2,4,5) unfolding iterate_js_nMin by blast
qed

text \<open>
  C4, amended: for every arithmetic, every registered code and every \<open>p\<close> that passes the
  test against the threshold (any \<open>k\<close>, any target), \<^verbatim>\<open>findRequiredN\<close> executes exactly
  \<open>20\<close> bisection steps from the bracket \<open>[10, 10\<^sup>6]\<close>, and the search of
  \<^verbatim>\<open>generatePlotData\<close> between \<open>1\<close> and \<open>30\<close> from \<open>[10, 10\<^sup>1\<^sup>0]\<close>, fewer than \<open>30\<close> only when
  its lower bound has passed \<open>10\<^sup>9\<close>. Each step evaluates the midpoint of the current
  bracket and raises the lower bound to it if the logical error rate there exceeds the
  target, else lowers the upper bound to it. \<^verbatim>\<open>findRequiredN\<close> returns, and the other
  search ends with, the best result seen and not the result of the last midpoint: a
  result evaluated whose distance is below \<^verbatim>\<open>Infinity\<close> and not above the distance of any
  result evaluated, or \<^verbatim>\<open>null\<close> when no result evaluated has a distance below
  \<^verbatim>\<open>Infinity\<close>.
\<close>

theorem searches_bisect_and_keep_best:
  assumes reg: "codeLibrary_js A cid = Some c"
    and below: "\<not> js_ge p (js_threshold c)"
  shows "findRequiredN_js A cid p t k
           = js_bestResult (findRequiredN_loop_js A c p k t 0 (search_init_js (Fin 1000000)))
       \<and> follows_bisection A c p k t (Fin 10, Fin 1000000) 20
           (findRequiredN_loop_js A c p k t 0 (search_init_js (Fin 1000000)))
       \<and> keeps_best A t (findRequiredN_loop_js A c p k t 0 (search_init_js (Fin 1000000)))
       \<and> (\<exists>m. 1 \<le> m \<and> m \<le> 30
            \<and> follows_bisection A c p k t (Fin 10, Fin 10000000000) m
                (plotSearch_loop_js A c p k t 0 (search_init_js (Fin 10000000000)))
            \<and> (m < 30 \<longrightarrow> js_less (Fin 1000000000)
                  (js_nMin (plotSearch_loop_js A c p k t 0 (search_init_js (Fin 10000000000)))))
            \<and> keeps_best A t
                (plotSearch_loop_js A c p k t 0 (search_init_js (Fin 10000000000))))"
proof -
  obtain m where m: "1 \<le> m" "m \<le> 30"
    "follows_bisection A c p k t (Fin 10, Fin 10000000000) m
       (plotSearch_loop_js A c p k t 0 (search_init_js (Fin 10000000000)))"
    "keeps_best A t (plotSearch_loop_js A c p k t 0 (search_init_js (Fin 10000000000)))"
    "m < 30 \<longrightarrow> js_less (Fin 1000000000)
       (fst (bisection_bracket A c p k t (Fin 10, Fin 10000000000) m))"
    using plotSearch_loop_js_follows [of A c p k t] by blast
  have "(js_nMin (plotSearch_loop_js A c p k t 0 (search_init_js (Fin 10000000000))),
         js_nMax (plotSearch_loop_js A c p k t 0 (search_init_js (Fin 10000000000))))
      = bisection_bracket A c p k t (Fin 10, Fin 10000000000) m"
    using m(3) by (simp add: follows_bisection_def)
  then have "fst (js_nMin (plotSearch_loop_js A c p k t 0 (search_init_js (Fin 10000000000))),
         js_nMax (plotSearch_loop_js A c p k t 0 (search_init_js (Fin 10000000000))))
      = fst (bisection_bracket A c p k t (Fin 10, Fin 10000000000) m)"
    by (rule arg_cong)
  then have "js_nMin (plotSearch_loop_js A c p k t 0 (search_init_js (Fin 10000000000)))
      = fst (bisection_bracket A c p k t (Fin 10, Fin 10000000000) m)"
    by simp
  then have "\<exists>m. 1 \<le> m \<and> m \<le> 30
            \<and> follows_bisection A c p k t (Fin 10, Fin 10000000000) m
                (plotSearch_loop_js A c p k t 0 (search_init_js (Fin 10000000000)))
            \<and> (m < 30 \<longrightarrow> js_less (Fin 1000000000)
                  (js_nMin (plotSearch_loop_js A c p k t 0 (search_init_js (Fin 10000000000)))))
            \<and> keeps_best A t
                (plotSearch_loop_js A c p k t 0 (search_init_js (Fin 10000000000)))"
    using m by (intro exI [of _ m]) simp
  then show ?thesis
    using findRequiredN_js_below_threshold [OF reg below]
      findRequiredN_loop_js_follows findRequiredN_loop_js_keeps_best
    by blast
qed

theorem searches_bisect_and_keep_best_witness:
  "codeLibrary_js real_arith ''surface''
     = Some \<lparr>js_code_name = ''Surface Code'', js_threshold = Fin 0.011,
             js_calculateParams = surface_calculateParams_js real_arith\<rparr>
   \<and> \<not> js_ge (Fin 0.001) (Fin 0.011)
   \<and> findRequiredN_js real_arith ''surface'' (Fin 0.001) (Fin 0.000001) (Fin 1)
       = js_bestResult (findRequiredN_loop_js real_arith
           \<lparr>js_code_name = ''Surface Code'', js_threshold = Fin 0.011,
             js_calculateParams = surface_calculateParams_js real_arith\<rparr>
           (Fin 0.001) (Fin 1) (Fin 0.000001) 0 (search_init_js (Fin 1000000)))
   \<and> length (js_evaluated (findRequiredN_loop_js real_arith
           \<lparr>js_code_name = ''Surface Code'', js_threshold = Fin 0.011,
             js_calculateParams = surface_calculateParams_js real_arith\<rparr>
           (Fin 0.001) (Fin 1) (Fin 0.000001) 0 (search_init_js (Fin 1000000)))) = 20
   \<and> keeps_best real_arith (Fin 0.000001) (findRequiredN_loop_js real_arith
           \<lparr>js_code_name = ''Surface Code'', js_threshold = Fin 0.011,
             js_calculateParams = surface_calculateParams_js real_arith\<rparr>
           (Fin 0.001) (Fin 1) (Fin 0.000001) 0 (search_init_js (Fin 1000000)))"
proof -
  have reg: "codeLibrary_js real_arith ''surface''
     = Some \<lparr>js_code_name = ''Surface Code'', js_threshold = Fin 0.011,
             js_calculateParams = surface_calculateParams_js real_arith\<rparr>"
    by (simp add: codeLibrary_js_def real_arith_def)
  have below: "\<not> js_ge (Fin 0.001)
      (js_threshold \<lparr>js_code_name = ''Surface Code'', js_threshold = Fin 0.011,
             js_calculateParams = surface_calculateParams_js real_arith\<rparr>)"
    by simp
  note inst = searches_bisect_and_keep_best [OF reg below, of "Fin 0.000001" "Fin 1"]
  have len: "length (js_evaluated (findRequiredN_loop_js real_arith
           \<lparr>js_code_name = ''Surface Code'', js_threshold = Fin 0.011,
             js_calculateParams = surface_calculateParams_js real_arith\<rparr>
           (Fin 0.001) (Fin 1) (Fin 0.000001) 0 (search_init_js (Fin 1000000)))) = 20"
    using inst by (simp add: follows_bisection_def)
  show ?thesis
    using reg inst len by simp
qed

section \<open>A search that passes the ceiling and still reports a result\<close>












end
